theory Spec2Isabelle
  imports Main "HOL-Library.Sublist"
begin

section \<open>Python strings and paths\<close>

text \<open>
  Python \<open>str\<close> values are modelled as \<open>string\<close>. The helpers below are the string
  operations the watcher service uses: \<open>s.startswith(p)\<close>, \<open>p in s\<close>, \<open>s.split(sep)\<close>
  for a one-character separator, \<open>sep.join(xs)\<close>, \<open>s.rfind(c)\<close> and \<open>str(n)\<close>.
\<close>

definition startswith :: "string \<Rightarrow> string \<Rightarrow> bool" where
  "startswith s p = prefix p s"

fun py_in :: "string \<Rightarrow> string \<Rightarrow> bool" where
  "py_in pat [] = (pat = [])"
| "py_in pat (c # cs) = (prefix pat (c # cs) \<or> py_in pat cs)"

fun py_split :: "char \<Rightarrow> string \<Rightarrow> string list" where
  "py_split sep [] = [[]]"
| "py_split sep (c # cs) =
     (if c = sep then [] # py_split sep cs
      else (case py_split sep cs of
              [] \<Rightarrow> [[c]]
            | w # ws \<Rightarrow> (c # w) # ws))"

fun py_join :: "string \<Rightarrow> string list \<Rightarrow> string" where
  "py_join sep [] = []"
| "py_join sep [x] = x"
| "py_join sep (x # y # ys) = x @ sep @ py_join sep (y # ys)"

fun rfind :: "char \<Rightarrow> string \<Rightarrow> int" where
  "rfind c [] = - 1"
| "rfind c (x # xs) =
     (let r = rfind c xs
      in if 0 \<le> r then r + 1 else if x = c then 0 else - 1)"

definition digit_char :: "nat \<Rightarrow> char" where
  "digit_char d = char_of (48 + d)"

fun str_of_nat :: "nat \<Rightarrow> string" where
  "str_of_nat n = (if n < 10 then [digit_char n] else str_of_nat (n div 10) @ [digit_char (n mod 10)])"

text \<open>
  \<open>pathlib.Path(file_path)\<close> on a POSIX system: the root is \<open>/\<close> (or \<open>//\<close> for exactly
  two leading slashes), the remaining text is split at \<open>/\<close>, and empty and \<open>.\<close>
  components are dropped. \<open>parts\<close> lists the root (when there is one) and the components,
  \<open>name\<close> is the last component, and \<open>suffix\<close> is the part of the name from its last dot,
  provided that dot is neither the first nor the last character of the name.
\<close>

definition path_root :: "string \<Rightarrow> string" where
  "path_root s =
     (if startswith s ''//'' \<and> \<not> startswith s ''///'' then ''//''
      else if startswith s ''/'' then ''/''
      else '''')"

definition path_components :: "string \<Rightarrow> string list" where
  "path_components s = filter (\<lambda>c. c \<noteq> '''' \<and> c \<noteq> ''.'') (py_split CHR ''/'' s)"

definition path_parts :: "string \<Rightarrow> string list" where
  "path_parts s =
     (if path_root s = '''' then path_components s else path_root s # path_components s)"

definition path_name :: "string \<Rightarrow> string" where
  "path_name s = (case path_components s of [] \<Rightarrow> '''' | _ \<Rightarrow> last (path_components s))"

definition path_suffix :: "string \<Rightarrow> string" where
  "path_suffix s =
     (let name = path_name s; i = rfind CHR ''.'' name
      in if 0 < i \<and> i < int (length name) - 1 then drop (nat i) name else '''')"

section \<open>Ignore policy: \<open>ChangeEventHandler.should_ignore_file\<close>\<close>

definition ignored_patterns :: "string list" where
  "ignored_patterns =
     [''.git'', ''__pycache__'', ''node_modules'', ''.vscode'',
      ''.idea'', ''venv'', ''env'', ''.pytest_cache'', ''dist'',
      ''build'', ''.DS_Store'', ''Thumbs.db'']"

definition ignored_extensions :: "string list" where
  "ignored_extensions =
     [''.pyc'', ''.pyo'', ''.log'', ''.tmp'', ''.temp'', ''.cache'',
      ''.swp'', ''.swo'', ''.bak'', ''.orig'']"

definition hidden_allowed_extensions :: "string list" where
  "hidden_allowed_extensions = [''.py'', ''.js'', ''.ts'', ''.jsx'', ''.tsx'']"

text \<open>\<open>any(pattern in part for pattern in patterns)\<close>\<close>

fun any_pattern_in :: "string list \<Rightarrow> string \<Rightarrow> bool" where
  "any_pattern_in [] part = False"
| "any_pattern_in (pattern # patterns) part =
     (if py_in pattern part then True else any_pattern_in patterns part)"

text \<open>The loop over \<open>path.parts\<close>, returning at the first part that holds a pattern.\<close>

fun parts_ignored :: "string list \<Rightarrow> bool" where
  "parts_ignored [] = False"
| "parts_ignored (part # parts) =
     (if any_pattern_in ignored_patterns part then True else parts_ignored parts)"

definition should_ignore_file :: "string \<Rightarrow> bool" where
  "should_ignore_file file_path =
     (if parts_ignored (path_parts file_path) then True
      else if path_suffix file_path \<in> set ignored_extensions then True
      else if startswith (path_name file_path) ''.''
              \<and> path_suffix file_path \<notin> set hidden_allowed_extensions then True
      else False)"

section \<open>Diff engine: \<open>_create_diff\<close> and \<open>_parse_diff_stats\<close>\<close>

text \<open>
  \<open>difflib.unified_diff(old_lines, new_lines, fromfile, tofile, lineterm='')\<close> belongs to
  the Python standard library, not to the repository. \<open>create_diff\<close> takes it as the
  parameter \<open>ud\<close>: the list of lines the library yields for the two line lists and the two
  file names.
\<close>

type_synonym unified_diff = "string list \<Rightarrow> string list \<Rightarrow> string \<Rightarrow> string \<Rightarrow> string list"

definition create_diff :: "unified_diff \<Rightarrow> string \<Rightarrow> string \<Rightarrow> string \<Rightarrow> string" where
  "create_diff ud relative_path old_content new_content =
     (let old_lines = (if old_content \<noteq> '''' then py_split (CHR 0x0A) old_content else []);
          new_lines = (if new_content \<noteq> '''' then py_split (CHR 0x0A) new_content else []);
          diff_lines = ud old_lines new_lines (''a/'' @ relative_path) (''b/'' @ relative_path)
      in if diff_lines = [] then ''No changes detected''
         else
           let header_lines =
                 [''diff --git a/'' @ relative_path @ '' b/'' @ relative_path] @
                 [if old_content = '''' then ''new file mode 100644''
                  else if new_content = '''' then ''deleted file mode 100644''
                  else ''index 0000000..1111111 100644'']
           in py_join [CHR 0x0A] (header_lines @ diff_lines))"

text \<open>
  The library's output when the two line lists have no line in common, in particular when
  one of them is empty (a created or a deleted file): the matcher finds no matching block,
  so there is a single hunk that removes every old line and then inserts every new line,
  after the two file-name lines and the hunk header; two empty lists give no output.
  \<open>format_range_unified\<close> is the library's \<open>_format_range_unified\<close>.
\<close>

definition format_range_unified :: "nat \<Rightarrow> nat \<Rightarrow> string" where
  "format_range_unified start stop =
     (let beginning = start + 1; len = stop - start
      in if len = 1 then str_of_nat beginning
         else if len = 0 then str_of_nat (beginning - 1) @ '','' @ str_of_nat len
         else str_of_nat beginning @ '','' @ str_of_nat len)"

definition unified_diff_no_common :: unified_diff where
  "unified_diff_no_common a b fromfile tofile =
     (if a = [] \<and> b = [] then []
      else [''--- '' @ fromfile, ''+++ '' @ tofile,
            ''@@ -'' @ format_range_unified 0 (length a) @ '' +''
               @ format_range_unified 0 (length b) @ '' @@'']
           @ map (\<lambda>line. CHR ''-'' # line) a
           @ map (\<lambda>line. CHR ''+'' # line) b)"

record diff_stats =
  added :: nat
  removed :: nat

text \<open>The loop of \<open>_parse_diff_stats\<close> over the lines of the diff.\<close>

fun count_diff_lines :: "string list \<Rightarrow> diff_stats \<Rightarrow> diff_stats" where
  "count_diff_lines [] st = st"
| "count_diff_lines (line # lines) st =
     (if startswith line ''+'' \<and> \<not> startswith line ''+++''
        then count_diff_lines lines (st\<lparr>added := added st + 1\<rparr>)
      else if startswith line ''-'' \<and> \<not> startswith line ''---''
        then count_diff_lines lines (st\<lparr>removed := removed st + 1\<rparr>)
      else count_diff_lines lines st)"

definition parse_diff_stats :: "string \<Rightarrow> diff_stats" where
  "parse_diff_stats diff = count_diff_lines (py_split (CHR 0x0A) diff) \<lparr>added = 0, removed = 0\<rparr>"

text \<open>The two tests of that loop.\<close>

definition is_added :: "string \<Rightarrow> bool" where
  "is_added line = (startswith line ''+'' \<and> \<not> startswith line ''+++'')"

definition is_removed :: "string \<Rightarrow> bool" where
  "is_removed line = (startswith line ''-'' \<and> \<not> startswith line ''---'')"

section \<open>The environment of a watcher\<close>

text \<open>
  What the watcher reads from the operating system, from git and from the watchdog
  library, as functions of the paths it asks about:
  \<^item> \<open>path_exists\<close>: \<open>os.path.exists\<close>;
  \<^item> \<open>read_text\<close>: \<open>open(path, 'r', encoding='utf-8', errors='ignore').read()\<close>, the text
    read or the text of the exception raised;
  \<^item> \<open>git_show\<close>: \<open>repo.git.show("HEAD:" + relative_path)\<close> for the repository at the
    given root, \<open>None\<close> when it raises;
  \<^item> \<open>abspath\<close>: \<open>os.path.abspath\<close>;
  \<^item> \<open>is_git_repo\<close>: whether \<open>Repo(path)\<close> returns (rather than raises);
  \<^item> \<open>walk\<close>: the files \<open>os.walk(root)\<close> visits once every \<open>.git\<close> directory is pruned,
    each as the pair of \<open>os.path.join(root, file)\<close> and its path relative to the root;
  \<^item> \<open>observer_starts\<close>: whether \<open>Observer.schedule\<close> and \<open>Observer.start\<close> return for
    the given root (rather than raise);
  \<^item> \<open>relpath\<close>: \<open>os.path.relpath(path, start)\<close>.
\<close>

datatype read_result = ReadOk string | ReadError string

record env =
  path_exists :: "string \<Rightarrow> bool"
  read_text :: "string \<Rightarrow> read_result"
  git_show :: "string \<Rightarrow> string \<Rightarrow> string option"
  abspath :: "string \<Rightarrow> string"
  is_git_repo :: "string \<Rightarrow> bool"
  walk :: "string \<Rightarrow> (string \<times> string) list"
  observer_starts :: "string \<Rightarrow> bool"
  relpath :: "string \<Rightarrow> string \<Rightarrow> string"
  author_info :: "string \<Rightarrow> string \<Rightarrow> string \<times> string \<times> string option"
  now_isoformat :: string

text \<open>\<open>os.path.join(a, b)\<close> on a POSIX system.\<close>

definition os_path_join :: "string \<Rightarrow> string \<Rightarrow> string" where
  "os_path_join a b =
     (if startswith b ''/'' then b
      else if a = '''' \<or> suffix ''/'' a then a @ b
      else a @ ''/'' @ b)"

section \<open>\<open>RepoWatcher\<close>\<close>

text \<open>
  The fields of a \<open>RepoWatcher\<close>. \<open>observer\<close> and \<open>event_handler\<close> are \<open>None\<close> or an
  object; the observer is recorded with the root it was scheduled on. The callbacks are
  values of a type \<open>'cb\<close> left open. \<open>file_snapshots\<close> is the dict from relative path to
  last known content.
\<close>

datatype observer_handle = Observer string

record 'cb repo_watcher =
  repo_path :: string
  repo_id :: string
  observer :: "observer_handle option"
  event_handler :: bool
  is_running :: bool
  change_callbacks :: "'cb list"
  file_snapshots :: "string \<rightharpoonup> string"

text \<open>
  \<open>RepoWatcher.__init__\<close> with \<open>_validate_repository\<close>: \<open>None\<close> is the \<open>ValueError\<close>
  raised for a path that does not exist or is not a git repository.
\<close>

definition validate_repository :: "env \<Rightarrow> string \<Rightarrow> bool" where
  "validate_repository e path =
     (if \<not> path_exists e path then False
      else if is_git_repo e path then True
      else False)"

definition new_repo_watcher :: "env \<Rightarrow> string \<Rightarrow> string \<Rightarrow> 'cb repo_watcher option" where
  "new_repo_watcher e rpath rid =
     (let w = \<lparr>repo_path = abspath e rpath, repo_id = rid, observer = None,
               event_handler = False, is_running = False, change_callbacks = [],
               file_snapshots = Map.empty\<rparr>
      in if \<not> validate_repository e (repo_path w) then None else Some w)"

definition add_change_callback :: "'cb repo_watcher \<Rightarrow> 'cb \<Rightarrow> 'cb repo_watcher" where
  "add_change_callback w callback = w\<lparr>change_callbacks := change_callbacks w @ [callback]\<rparr>"

text \<open>\<open>initialize_snapshots\<close>: the loop over the files of the tree.\<close>

fun initialize_files :: "env \<Rightarrow> (string \<times> string) list \<Rightarrow> 'cb repo_watcher \<Rightarrow> 'cb repo_watcher" where
  "initialize_files e [] w = w"
| "initialize_files e ((file_path, relative_path) # files) w =
     (if \<not> event_handler w \<or> \<not> should_ignore_file file_path
      then (case read_text e file_path of
              ReadOk content \<Rightarrow>
                initialize_files e files
                  (w\<lparr>file_snapshots := (file_snapshots w)(relative_path \<mapsto> content)\<rparr>)
            | ReadError msg \<Rightarrow> initialize_files e files w)
      else initialize_files e files w)"

definition initialize_snapshots :: "env \<Rightarrow> 'cb repo_watcher \<Rightarrow> 'cb repo_watcher" where
  "initialize_snapshots e w = initialize_files e (walk e (repo_path w)) w"

text \<open>
  \<open>_get_proper_diff\<close>: the diff text returned and the watcher afterwards (only
  \<open>file_snapshots\<close> changes).
\<close>

definition get_proper_diff ::
  "unified_diff \<Rightarrow> env \<Rightarrow> 'cb repo_watcher \<Rightarrow> string \<Rightarrow> string \<Rightarrow> string \<times> 'cb repo_watcher" where
  "get_proper_diff ud e w relative_path change_type =
     (let file_path = os_path_join (repo_path w) relative_path
      in if change_type = ''deleted'' \<or> \<not> path_exists e file_path then
           (case file_snapshots w relative_path of
              Some previous_content \<Rightarrow>
                (create_diff ud relative_path previous_content '''',
                 w\<lparr>file_snapshots := (file_snapshots w)(relative_path := None)\<rparr>)
            | None \<Rightarrow> (''File deleted (no previous snapshot available)'', w))
         else
           (case read_text e file_path of
              ReadError msg \<Rightarrow> (''Error reading current file: '' @ msg, w)
            | ReadOk current_content \<Rightarrow>
                let previous_content =
                      (case file_snapshots w relative_path of Some s \<Rightarrow> s | None \<Rightarrow> '''');
                    previous_content =
                      (if previous_content = '''' \<and> change_type \<noteq> ''created''
                       then (case git_show e (repo_path w) relative_path of
                               Some s \<Rightarrow> s
                             | None \<Rightarrow> '''')
                       else previous_content);
                    w' = w\<lparr>file_snapshots := (file_snapshots w)(relative_path \<mapsto> current_content)\<rparr>
                in if previous_content = current_content
                   then (''No actual changes detected'', w')
                   else (create_diff ud relative_path previous_content current_content, w')))"

text \<open>
  The change record \<open>_extract_git_info\<close> builds is a dict; each field below is \<open>Some\<close>
  when the key is present. (The dict also carries \<open>formatted_changes\<close>, a rendering of
  \<open>git_diff\<close> that nothing below reads; it is left out.) \<open>author_info\<close> in the environment
  is the triple \<open>_get_author_info\<close> returns (it catches every exception itself), and
  \<open>now_isoformat\<close> is \<open>datetime.now().isoformat()\<close>.
\<close>

record change_data =
  cd_repository_id :: "string option"
  cd_file_path :: "string option"
  cd_relative_path :: "string option"
  cd_change_type :: "string option"
  cd_timestamp :: "string option"
  cd_file_extension :: "string option"
  cd_git_diff :: "string option"
  cd_author :: "string option"
  cd_author_email :: "string option"
  cd_commit_hash :: "string option"
  cd_lines_added :: "nat option"
  cd_lines_removed :: "nat option"

definition extract_git_info ::
  "unified_diff \<Rightarrow> env \<Rightarrow> 'cb repo_watcher \<Rightarrow> string \<Rightarrow> string \<Rightarrow> string \<Rightarrow> change_data \<times> 'cb repo_watcher" where
  "extract_git_info ud e w file_path change_type relative_path =
     (let (raw_diff, w') = get_proper_diff ud e w relative_path change_type;
          diff_stats = parse_diff_stats raw_diff;
          (name, email, commit_hash) = author_info e (repo_path w) relative_path
      in (\<lparr>cd_repository_id = Some (repo_id w),
           cd_file_path = Some file_path,
           cd_relative_path = Some relative_path,
           cd_change_type = Some change_type,
           cd_timestamp = Some (now_isoformat e),
           cd_file_extension = Some (path_suffix file_path),
           cd_git_diff = Some raw_diff,
           cd_author = Some name,
           cd_author_email = Some email,
           cd_commit_hash = commit_hash,
           cd_lines_added = Some (added diff_stats),
           cd_lines_removed = Some (removed diff_stats)\<rparr>, w'))"

text \<open>
  \<open>_on_file_change\<close>: the record is built and every registered callback is called with
  it, one after the other, before the method returns. \<open>run\<close> gives what a callback does to
  the state \<open>'s\<close> of the rest of the service. \<open>handle_event\<close> is \<open>on_modified\<close>,
  \<open>on_created\<close> and \<open>on_deleted\<close> of the event handler, with the kind as an argument.
\<close>

definition on_file_change ::
  "unified_diff \<Rightarrow> env \<Rightarrow> ('cb \<Rightarrow> string \<Rightarrow> string \<Rightarrow> change_data \<Rightarrow> 's \<Rightarrow> 's)
     \<Rightarrow> 'cb repo_watcher \<Rightarrow> 's \<Rightarrow> string \<Rightarrow> string \<Rightarrow> 'cb repo_watcher \<times> 's" where
  "on_file_change ud e run w s file_path change_type =
     (let relative_path = relpath e file_path (repo_path w);
          (change_data, w') = extract_git_info ud e w file_path change_type relative_path
      in (w', fold (\<lambda>callback s. run callback file_path change_type change_data s)
                   (change_callbacks w') s))"

definition handle_event ::
  "unified_diff \<Rightarrow> env \<Rightarrow> ('cb \<Rightarrow> string \<Rightarrow> string \<Rightarrow> change_data \<Rightarrow> 's \<Rightarrow> 's)
     \<Rightarrow> 'cb repo_watcher \<Rightarrow> 's \<Rightarrow> bool \<Rightarrow> string \<Rightarrow> string \<Rightarrow> 'cb repo_watcher \<times> 's" where
  "handle_event ud e run w s is_directory src_path kind =
     (if \<not> is_directory \<and> \<not> should_ignore_file src_path
      then on_file_change ud e run w s src_path kind
      else (w, s))"

text \<open>
  \<open>start_watching\<close>. When scheduling or starting the observer raises, the observer object
  has already been stored and \<open>is_running\<close> is reset.
\<close>

definition start_watching :: "env \<Rightarrow> 'cb repo_watcher \<Rightarrow> bool \<times> 'cb repo_watcher" where
  "start_watching e w =
     (if is_running w then (True, w)
      else
        let w1 = initialize_snapshots e (w\<lparr>event_handler := True\<rparr>);
            w2 = w1\<lparr>observer := Some (Observer (repo_path w))\<rparr>
        in if observer_starts e (repo_path w) then (True, w2\<lparr>is_running := True\<rparr>)
           else (False, w2\<lparr>is_running := False\<rparr>))"




section \<open>\<open>WatcherManager\<close>\<close>

text \<open>
  \<open>watchers\<close> is the dict from repository id to watcher, kept in insertion order, which
  is the order \<open>start_all\<close> iterates in.
\<close>

record 'cb watcher_manager =
  watchers :: "(string \<times> 'cb repo_watcher) list"
  manager_callbacks :: "'cb list"

definition add_repository ::
  "env \<Rightarrow> 'cb watcher_manager \<Rightarrow> string \<Rightarrow> string \<Rightarrow> bool \<times> 'cb watcher_manager" where
  "add_repository e m rid rpath =
     (if rid \<in> set (map fst (watchers m)) then (True, m)
      else
        (case new_repo_watcher e rpath rid of
           None \<Rightarrow> (False, m)
         | Some w \<Rightarrow>
             (True, m\<lparr>watchers := watchers m @
                        [(rid, fold (\<lambda>cb w. add_change_callback w cb) (manager_callbacks m) w)]\<rparr>)))"

fun set_watcher ::
  "string \<Rightarrow> 'cb repo_watcher \<Rightarrow> (string \<times> 'cb repo_watcher) list \<Rightarrow> (string \<times> 'cb repo_watcher) list" where
  "set_watcher rid w [] = []"
| "set_watcher rid w ((k, v) # kvs) =
     (if k = rid then (k, w) # kvs else (k, v) # set_watcher rid w kvs)"

definition manager_start_watching ::
  "env \<Rightarrow> 'cb watcher_manager \<Rightarrow> string \<Rightarrow> bool \<times> 'cb watcher_manager" where
  "manager_start_watching e m rid =
     (case map_of (watchers m) rid of
        None \<Rightarrow> (False, m)
      | Some w \<Rightarrow>
          (let (ok, w') = start_watching e w
           in (ok, m\<lparr>watchers := set_watcher rid w' (watchers m)\<rparr>)))"



section \<open>\<open>ChangeProcessor\<close>\<close>

text \<open>
  What one \<open>requests.post\<close> call can do: return a response with a status code, or raise
  one of the three exception classes the retry loop catches.
\<close>

datatype outcome = Response nat | Timeout | ConnectionError | RequestException

record payload =
  pl_user_id :: nat
  pl_file_path :: string
  pl_change_type :: string
  previousV :: string
  currentV :: string

text \<open>
  The calls to the outside that delivery makes, in order: \<open>Post\<close> is one
  \<open>requests.post\<close> of the payload, \<open>Sleep n\<close> is \<open>time.sleep(n)\<close>, and
  \<open>CreateBroadcastTask\<close> is \<open>asyncio.create_task(broadcast_change(...))\<close>.
\<close>

datatype effect = Post payload | Sleep nat | CreateBroadcastTask

definition max_retries :: nat where
  "max_retries = 3"

text \<open>
  \<open>_send_to_ai_with_retries\<close>. \<open>net k\<close> is the outcome of the POST number \<open>k\<close> the
  service makes (counted from 0 over its whole run); the loop starts at POST number \<open>k\<close>.
  The result is the boolean returned and the calls made. \<open>after_failed_attempt\<close> is the end
  of the loop body, reached when the attempt neither returned \<open>True\<close> nor \<open>False\<close>.
\<close>

definition after_failed_attempt ::
  "payload \<Rightarrow> nat \<Rightarrow> bool \<times> effect list \<Rightarrow> bool \<times> effect list" where
  "after_failed_attempt pl attempt rest =
     (fst rest,
      Post pl # (if attempt < max_retries then [Sleep (2 ^ attempt)] else []) @ snd rest)"

fun send_attempts :: "(nat \<Rightarrow> outcome) \<Rightarrow> payload \<Rightarrow> nat list \<Rightarrow> nat \<Rightarrow> bool \<times> effect list" where
  "send_attempts net pl [] k = (False, [])"
| "send_attempts net pl (attempt # attempts) k =
     (case net k of
        Response status_code \<Rightarrow>
          if status_code = 200 then (True, [Post pl])
          else if status_code = 400 then (False, [Post pl])
          else after_failed_attempt pl attempt (send_attempts net pl attempts (k + 1))
      | Timeout \<Rightarrow> after_failed_attempt pl attempt (send_attempts net pl attempts (k + 1))
      | ConnectionError \<Rightarrow> after_failed_attempt pl attempt (send_attempts net pl attempts (k + 1))
      | RequestException \<Rightarrow> after_failed_attempt pl attempt (send_attempts net pl attempts (k + 1)))"

definition send_to_ai_with_retries :: "(nat \<Rightarrow> outcome) \<Rightarrow> payload \<Rightarrow> nat \<Rightarrow> bool \<times> effect list" where
  "send_to_ai_with_retries net pl k = send_attempts net pl [1 ..< max_retries + 1] k"

definition count_posts :: "effect list \<Rightarrow> nat" where
  "count_posts effs = length (filter (\<lambda>eff. case eff of Post pl \<Rightarrow> True | _ \<Rightarrow> False) effs)"

subsection \<open>The database and the processor's environment\<close>

text \<open>
  The rows of the three tables. \<open>sent_to_ai\<close> is the delivery state of a change:
  \<open>False\<close> is Pending, \<open>True\<close> is Sent. Timestamps are seconds on the UTC clock.
\<close>

record file_change =
  fc_id :: string
  fc_repository_id :: string
  fc_user_id :: nat
  fc_file_path :: string
  fc_relative_path :: string
  fc_change_type :: string
  fc_git_diff :: string
  fc_author :: string
  fc_author_email :: string
  fc_commit_hash :: "string option"
  fc_file_extension :: string
  fc_lines_added :: nat
  fc_lines_removed :: nat
  fc_timestamp :: int
  is_processed :: bool
  sent_to_ai :: bool

record repository =
  rp_id :: string
  rp_path :: string
  rp_last_change :: "int option"
  rp_total_changes :: nat

record user =
  u_id :: nat
  u_email :: string
  u_name :: string

text \<open>
  The state the processor works on: the tables (rows in insertion order), the
  auto-increment counter of the user table, how many ids \<open>uuid.uuid4()\<close> has handed out,
  how many POSTs have been made, and the calls made so far, each with the id of the change
  it was made for.
\<close>

record world =
  file_changes :: "file_change list"
  repositories :: "repository list"
  users :: "user list"
  next_user_id :: nat
  uuids :: nat
  posts :: nat
  calls :: "(string \<times> effect) list"

text \<open>
  What the processor reads from outside: the AI backend (\<open>net\<close>, as above), the pair
  \<open>_get_file_versions\<close> returns for a change (it reads the disk and git and catches every
  exception itself), \<open>uuid4 k\<close> the \<open>k\<close>-th id generated, the clock \<open>utcnow\<close>, and
  \<open>fromisoformat\<close>, \<open>None\<close> where \<open>datetime.fromisoformat\<close> raises. The database is taken
  to answer every query; a primary key already in use makes the commit fail.
\<close>

record penv =
  net :: "nat \<Rightarrow> outcome"
  get_file_versions :: "file_change \<Rightarrow> string \<times> string"
  uuid4 :: "nat \<Rightarrow> string"
  utcnow :: int
  fromisoformat :: "string \<Rightarrow> int option"

subsection \<open>Validation and persistence\<close>

definition validate_change_data :: "change_data \<Rightarrow> bool" where
  "validate_change_data cd =
     (if cd_repository_id cd = None then False
      else if cd_file_path cd = None then False
      else if cd_relative_path cd = None then False
      else if cd_change_type cd = None then False
      else if cd_timestamp cd = None then False
      else if cd_file_extension cd = None then False
      else if cd_author cd = None then False
      else if cd_author_email cd = None then False
      else (case cd_change_type cd of
              None \<Rightarrow> False
            | Some t \<Rightarrow> if t \<notin> set [''created'', ''modified'', ''deleted''] then False else True))"

definition get_or_create_user :: "world \<Rightarrow> string \<Rightarrow> string \<Rightarrow> nat \<times> world" where
  "get_or_create_user wd author_email author_name =
     (case find (\<lambda>u. u_email u = author_email) (users wd) of
        Some u \<Rightarrow> (u_id u, wd)
      | None \<Rightarrow>
          (next_user_id wd,
           wd\<lparr>users := users wd @ [\<lparr>u_id = next_user_id wd, u_email = author_email, u_name = author_name\<rparr>],
              next_user_id := next_user_id wd + 1\<rparr>))"

fun bump_repository :: "string \<Rightarrow> int \<Rightarrow> repository list \<Rightarrow> repository list" where
  "bump_repository rid now [] = []"
| "bump_repository rid now (r # rs) =
     (if rp_id r = rid
      then r\<lparr>rp_last_change := Some now, rp_total_changes := rp_total_changes r + 1\<rparr> # rs
      else r # bump_repository rid now rs)"

text \<open>
  \<open>_save_change_to_db\<close>: \<open>None\<close> with the state before (the rollback) when a required key
  is missing, the timestamp does not parse or the new id is already a primary key.
\<close>

definition save_change_to_db :: "penv \<Rightarrow> world \<Rightarrow> change_data \<Rightarrow> string option \<times> world" where
  "save_change_to_db pe wd cd =
     (case (cd_repository_id cd, cd_file_path cd, cd_relative_path cd, cd_change_type cd,
            cd_timestamp cd, cd_file_extension cd, cd_author cd, cd_author_email cd) of
        (Some repository_id, Some file_path, Some relative_path, Some change_type,
         Some timestamp, Some file_extension, Some author, Some author_email) \<Rightarrow>
          (let (user_id, wd1) = get_or_create_user wd author_email author;
               change_id = uuid4 pe (uuids wd);
               wd2 = wd1\<lparr>uuids := uuids wd + 1\<rparr>
           in case fromisoformat pe timestamp of
                None \<Rightarrow> (None, wd\<lparr>uuids := uuids wd + 1\<rparr>)
              | Some ts \<Rightarrow>
                  if change_id \<in> set (map fc_id (file_changes wd))
                  then (None, wd\<lparr>uuids := uuids wd + 1\<rparr>)
                  else
                    (Some change_id,
                     wd2\<lparr>file_changes := file_changes wd @
                            [\<lparr>fc_id = change_id, fc_repository_id = repository_id,
                              fc_user_id = user_id, fc_file_path = file_path,
                              fc_relative_path = relative_path, fc_change_type = change_type,
                              fc_git_diff = (case cd_git_diff cd of Some d \<Rightarrow> d | None \<Rightarrow> ''''),
                              fc_author = author, fc_author_email = author_email,
                              fc_commit_hash = cd_commit_hash cd,
                              fc_file_extension = file_extension,
                              fc_lines_added = (case cd_lines_added cd of Some n \<Rightarrow> n | None \<Rightarrow> 0),
                              fc_lines_removed = (case cd_lines_removed cd of Some n \<Rightarrow> n | None \<Rightarrow> 0),
                              fc_timestamp = ts, is_processed = False, sent_to_ai = False\<rparr>],
                          repositories := bump_repository repository_id (utcnow pe) (repositories wd)\<rparr>))
      | _ \<Rightarrow> (None, wd))"

subsection \<open>Delivery\<close>

definition prepare_ai_payload :: "penv \<Rightarrow> file_change \<Rightarrow> payload" where
  "prepare_ai_payload pe change =
     (let (previous_content, current_content) = get_file_versions pe change
      in \<lparr>pl_user_id = fc_user_id change, pl_file_path = fc_relative_path change,
          pl_change_type = fc_change_type change,
          previousV = previous_content, currentV = current_content\<rparr>)"

text \<open>
  \<open>db.query(FileChange).join(Repository).filter(FileChange.id == change_id).first()\<close>:
  the first row with that id whose repository exists.
\<close>

definition is_change :: "world \<Rightarrow> string \<Rightarrow> file_change \<Rightarrow> bool" where
  "is_change wd change_id c =
     (fc_id c = change_id \<and> fc_repository_id c \<in> set (map rp_id (repositories wd)))"

definition find_change :: "world \<Rightarrow> string \<Rightarrow> file_change option" where
  "find_change wd change_id = find (is_change wd change_id) (file_changes wd)"

text \<open>Setting \<open>sent_to_ai\<close> and \<open>is_processed\<close> on that row.\<close>

fun mark_sent :: "(file_change \<Rightarrow> bool) \<Rightarrow> file_change list \<Rightarrow> file_change list" where
  "mark_sent P [] = []"
| "mark_sent P (c # cs) =
     (if P c then c\<lparr>sent_to_ai := True, is_processed := True\<rparr> # cs else c # mark_sent P cs)"

definition send_change_to_ai :: "penv \<Rightarrow> world \<Rightarrow> string \<Rightarrow> bool \<times> world" where
  "send_change_to_ai pe wd change_id =
     (case find_change wd change_id of
        None \<Rightarrow> (False, wd)
      | Some change \<Rightarrow>
          if sent_to_ai change then (True, wd)
          else
            let pl = prepare_ai_payload pe change;
                (success, effs) = send_to_ai_with_retries (net pe) pl (posts wd);
                wd1 = wd\<lparr>posts := posts wd + count_posts effs,
                         calls := calls wd @ map (Pair change_id) effs\<rparr>
            in if success
               then (True, wd1\<lparr>file_changes := mark_sent (is_change wd change_id) (file_changes wd)\<rparr>)
               else (False, wd1))"

definition queue_for_ai_processing :: "penv \<Rightarrow> world \<Rightarrow> string \<Rightarrow> world" where
  "queue_for_ai_processing pe wd change_id = snd (send_change_to_ai pe wd change_id)"

definition process_file_change ::
  "penv \<Rightarrow> world \<Rightarrow> string \<Rightarrow> string \<Rightarrow> change_data \<Rightarrow> string option \<times> world" where
  "process_file_change pe wd file_path change_type cd =
     (if \<not> validate_change_data cd then (None, wd)
      else
        (case save_change_to_db pe wd cd of
           (None, wd1) \<Rightarrow> (None, wd1)
         | (Some change_id, wd1) \<Rightarrow> (Some change_id, queue_for_ai_processing pe wd1 change_id)))"

text \<open>
  \<open>handle_file_change\<close> of the API server, the callback registered on the watcher manager.
\<close>

definition handle_file_change :: "penv \<Rightarrow> string \<Rightarrow> string \<Rightarrow> change_data \<Rightarrow> world \<Rightarrow> world" where
  "handle_file_change pe file_path change_type cd wd =
     (case process_file_change pe wd file_path change_type cd of
        (None, wd1) \<Rightarrow> wd1
      | (Some change_id, wd1) \<Rightarrow> wd1\<lparr>calls := calls wd1 @ [(change_id, CreateBroadcastTask)]\<rparr>)"

text \<open>
  The loops of \<open>process_unsent_changes\<close> and \<open>retry_failed_changes\<close> over the rows
  selected, collecting the id of each change and whether it was sent.
\<close>

fun send_each ::
  "penv \<Rightarrow> file_change list \<Rightarrow> (string \<times> bool) list \<Rightarrow> world \<Rightarrow> (string \<times> bool) list \<times> world" where
  "send_each pe [] results wd = (results, wd)"
| "send_each pe (change # changes) results wd =
     (let (success, wd1) = send_change_to_ai pe wd (fc_id change)
      in send_each pe changes (results @ [(fc_id change, success)]) wd1)"

definition unsent_changes :: "world \<Rightarrow> nat \<Rightarrow> file_change list" where
  "unsent_changes wd limit =
     take limit (sort_key fc_timestamp (filter (\<lambda>c. sent_to_ai c = False) (file_changes wd)))"

definition process_unsent_changes :: "penv \<Rightarrow> world \<Rightarrow> nat \<Rightarrow> (string \<times> bool) list \<times> world" where
  "process_unsent_changes pe wd limit =
     (if unsent_changes wd limit = [] then ([], wd)
      else send_each pe (unsent_changes wd limit) [] wd)"

definition failed_changes :: "penv \<Rightarrow> world \<Rightarrow> nat \<Rightarrow> nat \<Rightarrow> file_change list" where
  "failed_changes pe wd hours_back limit =
     (let since_time = utcnow pe - int hours_back * 3600
      in take limit
           (sort_key (\<lambda>c. - fc_timestamp c)
              (filter (\<lambda>c. sent_to_ai c = False \<and> since_time \<le> fc_timestamp c) (file_changes wd))))"

definition retry_failed_changes ::
  "penv \<Rightarrow> world \<Rightarrow> nat \<Rightarrow> nat \<Rightarrow> (string \<times> bool) list \<times> world" where
  "retry_failed_changes pe wd hours_back limit =
     (if failed_changes pe wd hours_back limit = [] then ([], wd)
      else send_each pe (failed_changes pe wd hours_back limit) [] wd)"

text \<open>The service's one callback, and what running it means.\<close>

datatype callback = HandleFileChange

fun run_callback :: "penv \<Rightarrow> callback \<Rightarrow> string \<Rightarrow> string \<Rightarrow> change_data \<Rightarrow> world \<Rightarrow> world" where
  "run_callback pe HandleFileChange file_path change_type cd wd =
     handle_file_change pe file_path change_type cd wd"

text \<open>
  The delivery state of the change with a given id, as \<open>_send_change_to_ai\<close> reads it
  (\<open>True\<close> is Sent), and the calls made for a given change.
\<close>

definition delivery_sent :: "world \<Rightarrow> string \<Rightarrow> bool" where
  "delivery_sent wd change_id =
     (case find_change wd change_id of None \<Rightarrow> False | Some change \<Rightarrow> sent_to_ai change)"

definition calls_for :: "string \<Rightarrow> (string \<times> effect) list \<Rightarrow> effect list" where
  "calls_for change_id cs = map snd (filter (\<lambda>c. fst c = change_id) cs)"

text \<open>
  One state is related to a later one by \<open>keeps_sent\<close> for a change id when the change is
  Sent in the later state and no call for it has been added.
\<close>

definition keeps_sent :: "string \<Rightarrow> world \<Rightarrow> world \<Rightarrow> bool" where
  "keeps_sent change_id wd wd' =
     (delivery_sent wd' change_id
      \<and> calls_for change_id (calls wd') = calls_for change_id (calls wd))"

subsection \<open>A small database and backends that always answer the same\<close>

definition always :: "outcome \<Rightarrow> nat \<Rightarrow> outcome" where
  "always out k = out"

definition example_change :: file_change where
  "example_change =
     \<lparr>fc_id = ''c1'', fc_repository_id = ''r1'', fc_user_id = 1,
      fc_file_path = ''/repo/a.py'', fc_relative_path = ''a.py'',
      fc_change_type = ''modified'', fc_git_diff = '''', fc_author = ''ann'',
      fc_author_email = ''ann@example.org'', fc_commit_hash = None,
      fc_file_extension = ''.py'', fc_lines_added = 0, fc_lines_removed = 0,
      fc_timestamp = 10, is_processed = False, sent_to_ai = False\<rparr>"

definition example_world :: world where
  "example_world =
     \<lparr>file_changes = [example_change],
      repositories = [\<lparr>rp_id = ''r1'', rp_path = ''/repo'', rp_last_change = None,
                       rp_total_changes = 1\<rparr>],
      users = [\<lparr>u_id = 1, u_email = ''ann@example.org'', u_name = ''ann''\<rparr>],
      next_user_id = 2, uuids = 0, posts = 0, calls = []\<rparr>"

definition example_penv :: "(nat \<Rightarrow> outcome) \<Rightarrow> penv" where
  "example_penv nt =
     \<lparr>net = nt, get_file_versions = (\<lambda>change. (''empty'', ''empty'')),
      uuid4 = (\<lambda>k. ''id-'' @ str_of_nat k), utcnow = 100,
      fromisoformat = (\<lambda>s. Some 50)\<rparr>"

definition example_payload :: payload where
  "example_payload =
     \<lparr>pl_user_id = 1, pl_file_path = ''a.py'', pl_change_type = ''modified'',
      previousV = ''empty'', currentV = ''empty''\<rparr>"

text \<open>The same database later: \<open>c1\<close> has been sent, and a second change \<open>c2\<close> is Pending.\<close>

definition example_sent_world :: world where
  "example_sent_world =
     example_world
       \<lparr>file_changes :=
          [example_change\<lparr>sent_to_ai := True, is_processed := True\<rparr>,
           example_change\<lparr>fc_id := ''c2'', fc_timestamp := 20\<rparr>],
        posts := 1,
        calls := [(''c1'', Post example_payload)]\<rparr>"

subsection \<open>A small repository and its watcher\<close>

text \<open>
  The repository at \<open>/repo\<close> holds the files \<open>a.py\<close>, \<open>q.sql\<close> and \<open>i.c\<close>; reading any of
  them gives the result \<open>r\<close>; \<open>a.py\<close> is committed with content \<open>v1\<close>. The watcher is
  running, with the server's callback registered and the given snapshots.
\<close>

definition example_env :: "read_result \<Rightarrow> env" where
  "example_env r =
     \<lparr>path_exists = (\<lambda>p. p \<in> set [''/repo'', ''/repo/a.py'', ''/repo/q.sql'', ''/repo/i.c'']),
      read_text = (\<lambda>p. r),
      git_show = (\<lambda>root rel. if root = ''/repo'' \<and> rel = ''a.py'' then Some ''v1'' else None),
      abspath = (\<lambda>p. p),
      is_git_repo = (\<lambda>p. p = ''/repo''),
      walk = (\<lambda>root. if root = ''/repo'' then [(''/repo/a.py'', ''a.py'')] else []),
      observer_starts = (\<lambda>root. True),
      relpath = (\<lambda>p start. drop (length start + 1) p),
      author_info = (\<lambda>root rel. (''ann'', ''ann@example.org'', Some ''0123abcd'')),
      now_isoformat = ''2024-01-01T00:00:00''\<rparr>"

definition example_watcher :: "(string \<times> string) list \<Rightarrow> callback repo_watcher" where
  "example_watcher snapshots =
     \<lparr>repo_path = ''/repo'', repo_id = ''r1'', observer = Some (Observer ''/repo''),
      event_handler = True, is_running = True, change_callbacks = [HandleFileChange],
      file_snapshots = map_of snapshots\<rparr>"

definition empty_manager :: "callback watcher_manager" where
  "empty_manager = \<lparr>watchers = [], manager_callbacks = [HandleFileChange]\<rparr>"

text \<open>The manager after the repository at \<open>/repo\<close> has been added under the id \<open>X\<close>.\<close>

definition manager_X :: "callback watcher_manager" where
  "manager_X = snd (add_repository (example_env (ReadOk ''v1'')) empty_manager ''X'' ''/repo'')"



section \<open>The ignore policy\<close>

declare str_of_nat.simps [simp del]

lemma py_in_sublist: "py_in pat s \<longleftrightarrow> sublist pat s"
  by (induction s) (auto simp: sublist_Cons_right)

lemma any_pattern_in_iff:
  "any_pattern_in ps part \<longleftrightarrow> (\<exists>pattern \<in> set ps. sublist pattern part)"
  by (induction ps) (auto simp: py_in_sublist)

lemma parts_ignored_iff:
  "parts_ignored parts \<longleftrightarrow>
     (\<exists>part \<in> set parts. \<exists>pattern \<in> set ignored_patterns. sublist pattern part)"
  by (induction parts) (auto simp: any_pattern_in_iff)

text \<open>
  Claim C9, as the code has it: \<open>should_ignore_file\<close> returns true exactly when some part
  of the path contains an entry of the block-list of directory names as a substring
  (\<open>pattern in part\<close>), or the suffix of the path is in the block-list of extensions, or the
  name starts with a dot and the suffix is not one of the five allowed source extensions.
\<close>

theorem should_ignore_file_iff:
  "should_ignore_file p \<longleftrightarrow>
     (\<exists>part \<in> set (path_parts p). \<exists>pattern \<in> set ignored_patterns. sublist pattern part)
     \<or> path_suffix p \<in> set ignored_extensions
     \<or> (startswith (path_name p) ''.'' \<and> path_suffix p \<notin> set hidden_allowed_extensions)"
  unfolding should_ignore_file_def parts_ignored_iff by auto

text \<open>
  The theorem at \<open>web/node_modules/x.js\<close>: the part \<open>node_modules\<close> is on the block-list,
  so the path is ignored.
\<close>

theorem should_ignore_file_iff_witness:
  "''node_modules'' \<in> set ignored_patterns
   \<and> ''node_modules'' \<in> set (path_parts ''web/node_modules/x.js'')
   \<and> sublist ''node_modules'' ''node_modules''
   \<and> should_ignore_file ''web/node_modules/x.js''"
proof -
  have a: "''node_modules'' \<in> set ignored_patterns" by code_simp
  have b: "''node_modules'' \<in> set (path_parts ''web/node_modules/x.js'')" by code_simp
  have c: "sublist ''node_modules'' ''node_modules''" by simp
  from a b c should_ignore_file_iff [of "''web/node_modules/x.js''"] show ?thesis by blast
qed

text \<open>
  Claim C9 as stated fails when "matches an entry" is read as "is an entry":
  \<open>src/environment.py\<close> is ignored (its name contains \<open>env\<close>), although neither of its
  parts is on the block-list of names, its suffix \<open>.py\<close> is not on the block-list of
  extensions, and its name does not start with a dot.
\<close>

theorem should_ignore_file_counterexample:
  "should_ignore_file ''src/environment.py''
   \<and> path_parts ''src/environment.py'' = [''src'', ''environment.py'']
   \<and> ''src'' \<notin> set ignored_patterns
   \<and> ''environment.py'' \<notin> set ignored_patterns
   \<and> path_suffix ''src/environment.py'' = ''.py''
   \<and> ''.py'' \<notin> set ignored_extensions
   \<and> \<not> startswith (path_name ''src/environment.py'') ''.''"
  by code_simp

section \<open>Delivery to the AI backend\<close>

lemma attempts_1_2_3: "[1 ..< max_retries + 1] = [1, 2, 3]"
  by (simp add: max_retries_def upt_rec)

lemma send_to_ai_with_retries_cases:
  "send_to_ai_with_retries nt pl k =
     (if nt k = Response 200 then (True, [Post pl])
      else if nt k = Response 400 then (False, [Post pl])
      else if nt (k + 1) = Response 200 then (True, [Post pl, Sleep 2, Post pl])
      else if nt (k + 1) = Response 400 then (False, [Post pl, Sleep 2, Post pl])
      else if nt (k + 2) = Response 200 then (True, [Post pl, Sleep 2, Post pl, Sleep 4, Post pl])
      else (False, [Post pl, Sleep 2, Post pl, Sleep 4, Post pl]))"
  unfolding send_to_ai_with_retries_def attempts_1_2_3
  by (cases "nt k"; cases "nt (k + 1)"; cases "nt (k + 2)")
     (simp_all add: after_failed_attempt_def max_retries_def)

lemma is_change_marked:
  "is_change wd cid (c\<lparr>sent_to_ai := True, is_processed := True\<rparr>) = is_change wd cid c"
  by (simp add: is_change_def)

lemma find_is_change_mark_sent:
  "find (is_change wd cid) cs = Some c \<Longrightarrow>
   find (is_change wd cid) (mark_sent (is_change wd cid) cs)
     = Some (c\<lparr>sent_to_ai := True, is_processed := True\<rparr>)"
  by (induction cs) (auto simp: is_change_marked)

lemma find_is_change_mark_sent_other:
  "cid' \<noteq> cid \<Longrightarrow>
   find (is_change wd cid) (mark_sent (is_change wd cid') cs) = find (is_change wd cid) cs"
  by (induction cs) (auto simp: is_change_def)

lemma is_change_update [simp]:
  "is_change (wd\<lparr>posts := n\<rparr>) = is_change wd"
  "is_change (wd\<lparr>calls := cs\<rparr>) = is_change wd"
  "is_change (wd\<lparr>file_changes := fcs\<rparr>) = is_change wd"
  "is_change (wd\<lparr>uuids := u\<rparr>) = is_change wd"
  "is_change (wd\<lparr>users := us\<rparr>) = is_change wd"
  "is_change (wd\<lparr>next_user_id := nu\<rparr>) = is_change wd"
  by (simp_all add: is_change_def fun_eq_iff)

lemma find_change_update [simp]:
  "find_change (wd\<lparr>posts := n\<rparr>) = find_change wd"
  "find_change (wd\<lparr>calls := cs\<rparr>) = find_change wd"
  "find_change (wd\<lparr>uuids := u\<rparr>) = find_change wd"
  "find_change (wd\<lparr>users := us\<rparr>) = find_change wd"
  "find_change (wd\<lparr>next_user_id := nu\<rparr>) = find_change wd"
  by (simp_all add: find_change_def fun_eq_iff)

lemma delivery_sent_update [simp]:
  "delivery_sent (wd\<lparr>posts := n\<rparr>) = delivery_sent wd"
  "delivery_sent (wd\<lparr>calls := cs\<rparr>) = delivery_sent wd"
  "delivery_sent (wd\<lparr>uuids := u\<rparr>) = delivery_sent wd"
  "delivery_sent (wd\<lparr>users := us\<rparr>) = delivery_sent wd"
  "delivery_sent (wd\<lparr>next_user_id := nu\<rparr>) = delivery_sent wd"
  by (simp_all add: delivery_sent_def fun_eq_iff)

text \<open>
  Claim C1, as the code has it. For a change that is found and Pending, with \<open>o1\<close>,
  \<open>o2\<close>, \<open>o3\<close> the outcomes of the next three POSTs: a status 200 ends delivery with the
  change Sent; a status 400 ends it with the change still Pending and no further attempt;
  every other outcome (a timeout, a connection error, another request error, any other
  status) is followed by a sleep of 2 seconds after the first attempt and of 4 seconds
  after the second, and by the next attempt, up to three attempts, after which the change
  is still Pending. Still Pending means that the table of changes is the one before and
  the row is found as it was; Sent means that the row is found with \<open>sent_to_ai\<close> and
  \<open>is_processed\<close> set. At most three POSTs are made.
\<close>

theorem delivery_three_attempts:
  assumes found: "find_change wd cid = Some change"
      and pending: "\<not> sent_to_ai change"
      and run: "send_change_to_ai pe wd cid = (ok, wd')"
      and pl: "pl = prepare_ai_payload pe change"
      and o1: "o1 = net pe (posts wd)"
      and o2: "o2 = net pe (posts wd + 1)"
      and o3: "o3 = net pe (posts wd + 2)"
  shows
    "(o1 = Response 200 \<longrightarrow>
        ok \<and> delivery_sent wd' cid
        \<and> find_change wd' cid = Some (change\<lparr>sent_to_ai := True, is_processed := True\<rparr>)
        \<and> calls wd' = calls wd @ [(cid, Post pl)])
     \<and> (o1 = Response 400 \<longrightarrow>
        \<not> ok \<and> \<not> delivery_sent wd' cid
        \<and> file_changes wd' = file_changes wd \<and> find_change wd' cid = Some change
        \<and> calls wd' = calls wd @ [(cid, Post pl)])
     \<and> (o1 \<noteq> Response 200 \<and> o1 \<noteq> Response 400 \<and> o2 = Response 200 \<longrightarrow>
        ok \<and> delivery_sent wd' cid
        \<and> find_change wd' cid = Some (change\<lparr>sent_to_ai := True, is_processed := True\<rparr>)
        \<and> calls wd' = calls wd @ [(cid, Post pl), (cid, Sleep 2), (cid, Post pl)])
     \<and> (o1 \<noteq> Response 200 \<and> o1 \<noteq> Response 400 \<and> o2 = Response 400 \<longrightarrow>
        \<not> ok \<and> \<not> delivery_sent wd' cid
        \<and> file_changes wd' = file_changes wd \<and> find_change wd' cid = Some change
        \<and> calls wd' = calls wd @ [(cid, Post pl), (cid, Sleep 2), (cid, Post pl)])
     \<and> (o1 \<noteq> Response 200 \<and> o1 \<noteq> Response 400 \<and> o2 \<noteq> Response 200 \<and> o2 \<noteq> Response 400
          \<and> o3 = Response 200 \<longrightarrow>
        ok \<and> delivery_sent wd' cid
        \<and> find_change wd' cid = Some (change\<lparr>sent_to_ai := True, is_processed := True\<rparr>)
        \<and> calls wd' = calls wd @ [(cid, Post pl), (cid, Sleep 2), (cid, Post pl),
                                    (cid, Sleep 4), (cid, Post pl)])
     \<and> (o1 \<noteq> Response 200 \<and> o1 \<noteq> Response 400 \<and> o2 \<noteq> Response 200 \<and> o2 \<noteq> Response 400
          \<and> o3 \<noteq> Response 200 \<longrightarrow>
        \<not> ok \<and> \<not> delivery_sent wd' cid
        \<and> file_changes wd' = file_changes wd \<and> find_change wd' cid = Some change
        \<and> calls wd' = calls wd @ [(cid, Post pl), (cid, Sleep 2), (cid, Post pl),
                                    (cid, Sleep 4), (cid, Post pl)])
     \<and> posts wd' \<le> posts wd + 3
     \<and> posts wd' - posts wd = count_posts (calls_for cid (drop (length (calls wd)) (calls wd')))"
proof -
  let ?marked = "mark_sent (is_change wd cid) (file_changes wd)"
  let ?sent_row = "change\<lparr>sent_to_ai := True, is_processed := True\<rparr>"
  have sent: "delivery_sent (wd\<lparr>posts := n, calls := cs, file_changes := ?marked\<rparr>) cid
      \<and> find_change (wd\<lparr>posts := n, calls := cs, file_changes := ?marked\<rparr>) cid = Some ?sent_row"
    for n cs
    using found
    by (simp add: delivery_sent_def find_change_def find_is_change_mark_sent)
  have unsent: "\<not> delivery_sent (wd\<lparr>posts := n, calls := cs\<rparr>) cid
      \<and> file_changes (wd\<lparr>posts := n, calls := cs\<rparr>) = file_changes wd
      \<and> find_change (wd\<lparr>posts := n, calls := cs\<rparr>) cid = Some change" for n cs
    using found pending by (simp add: delivery_sent_def)
  have step: "(ok, wd') =
      (case send_to_ai_with_retries (net pe) pl (posts wd) of
         (success, effs) \<Rightarrow>
           if success
           then (True, wd\<lparr>posts := posts wd + count_posts effs,
                           calls := calls wd @ map (Pair cid) effs,
                           file_changes := ?marked\<rparr>)
           else (False, wd\<lparr>posts := posts wd + count_posts effs,
                            calls := calls wd @ map (Pair cid) effs\<rparr>))"
    using run found pending by (simp add: send_change_to_ai_def pl Let_def)
  let ?n = "count_posts (calls_for cid (drop (length (calls wd)) (calls wd')))"
  have c1: "o1 = Response 200 \<Longrightarrow>
        ok \<and> delivery_sent wd' cid \<and> find_change wd' cid = Some ?sent_row
        \<and> calls wd' = calls wd @ [(cid, Post pl)]
        \<and> posts wd' \<le> posts wd + 3 \<and> posts wd' - posts wd = ?n"
    using step sent
    by (simp add: send_to_ai_with_retries_cases o1 count_posts_def calls_for_def)
  have c2: "o1 = Response 400 \<Longrightarrow>
        \<not> ok \<and> \<not> delivery_sent wd' cid
        \<and> file_changes wd' = file_changes wd \<and> find_change wd' cid = Some change
        \<and> calls wd' = calls wd @ [(cid, Post pl)]
        \<and> posts wd' \<le> posts wd + 3 \<and> posts wd' - posts wd = ?n"
    using step unsent
    by (simp add: send_to_ai_with_retries_cases o1 count_posts_def calls_for_def)
  have c3: "o1 \<noteq> Response 200 \<Longrightarrow> o1 \<noteq> Response 400 \<Longrightarrow> o2 = Response 200 \<Longrightarrow>
        ok \<and> delivery_sent wd' cid \<and> find_change wd' cid = Some ?sent_row
        \<and> calls wd' = calls wd @ [(cid, Post pl), (cid, Sleep 2), (cid, Post pl)]
        \<and> posts wd' \<le> posts wd + 3 \<and> posts wd' - posts wd = ?n"
    using step sent
    by (simp add: send_to_ai_with_retries_cases o1 o2 count_posts_def calls_for_def)
  have c4: "o1 \<noteq> Response 200 \<Longrightarrow> o1 \<noteq> Response 400 \<Longrightarrow> o2 = Response 400 \<Longrightarrow>
        \<not> ok \<and> \<not> delivery_sent wd' cid
        \<and> file_changes wd' = file_changes wd \<and> find_change wd' cid = Some change
        \<and> calls wd' = calls wd @ [(cid, Post pl), (cid, Sleep 2), (cid, Post pl)]
        \<and> posts wd' \<le> posts wd + 3 \<and> posts wd' - posts wd = ?n"
    using step unsent
    by (simp add: send_to_ai_with_retries_cases o1 o2 count_posts_def calls_for_def)
  have c5: "o1 \<noteq> Response 200 \<Longrightarrow> o1 \<noteq> Response 400 \<Longrightarrow> o2 \<noteq> Response 200 \<Longrightarrow>
        o2 \<noteq> Response 400 \<Longrightarrow> o3 = Response 200 \<Longrightarrow>
        ok \<and> delivery_sent wd' cid \<and> find_change wd' cid = Some ?sent_row
        \<and> calls wd' = calls wd @ [(cid, Post pl), (cid, Sleep 2), (cid, Post pl),
                                    (cid, Sleep 4), (cid, Post pl)]
        \<and> posts wd' \<le> posts wd + 3 \<and> posts wd' - posts wd = ?n"
    using step sent
    by (simp add: send_to_ai_with_retries_cases o1 o2 o3 count_posts_def calls_for_def)
  have c6: "o1 \<noteq> Response 200 \<Longrightarrow> o1 \<noteq> Response 400 \<Longrightarrow> o2 \<noteq> Response 200 \<Longrightarrow>
        o2 \<noteq> Response 400 \<Longrightarrow> o3 \<noteq> Response 200 \<Longrightarrow>
        \<not> ok \<and> \<not> delivery_sent wd' cid
        \<and> file_changes wd' = file_changes wd \<and> find_change wd' cid = Some change
        \<and> calls wd' = calls wd @ [(cid, Post pl), (cid, Sleep 2), (cid, Post pl),
                                    (cid, Sleep 4), (cid, Post pl)]
        \<and> posts wd' \<le> posts wd + 3 \<and> posts wd' - posts wd = ?n"
    using step unsent
    by (simp add: send_to_ai_with_retries_cases o1 o2 o3 count_posts_def calls_for_def)
  have bound: "posts wd' \<le> posts wd + 3 \<and> posts wd' - posts wd = ?n"
    using c1 c2 c3 c4 c5 c6 by blast
  show ?thesis
    using c1 c2 c3 c4 c5 c6 bound by blast
qed

lemma example_found: "find_change example_world ''c1'' = Some example_change"
  by (simp add: find_change_def example_world_def is_change_def example_change_def)

lemma example_pending: "\<not> sent_to_ai example_change"
  by (simp add: example_change_def)

lemma example_payload_eq:
  "prepare_ai_payload (example_penv nt) example_change = example_payload"
  by (simp add: prepare_ai_payload_def example_penv_def example_change_def example_payload_def)

text \<open>
  The theorem on the small database, whose one change \<open>c1\<close> is Pending: a backend that
  always answers 500 gets three POSTs with sleeps of 2 and 4 seconds between them and the
  change stays Pending, its row found as before in an unchanged table; one that answers 400
  gets one POST and the change stays Pending; one that answers 200 gets one POST and the
  change is Sent.
\<close>

theorem delivery_three_attempts_witness:
  "find_change example_world ''c1'' = Some example_change
   \<and> \<not> sent_to_ai example_change
   \<and> \<not> fst (send_change_to_ai (example_penv (always (Response 500))) example_world ''c1'')
   \<and> \<not> delivery_sent
         (snd (send_change_to_ai (example_penv (always (Response 500))) example_world ''c1'')) ''c1''
   \<and> calls (snd (send_change_to_ai (example_penv (always (Response 500))) example_world ''c1''))
       = [(''c1'', Post example_payload), (''c1'', Sleep 2), (''c1'', Post example_payload),
          (''c1'', Sleep 4), (''c1'', Post example_payload)]
   \<and> file_changes (snd (send_change_to_ai (example_penv (always (Response 500))) example_world ''c1''))
       = file_changes example_world
   \<and> find_change (snd (send_change_to_ai (example_penv (always (Response 500))) example_world ''c1'')) ''c1''
       = Some example_change
   \<and> \<not> fst (send_change_to_ai (example_penv (always (Response 400))) example_world ''c1'')
   \<and> \<not> delivery_sent
         (snd (send_change_to_ai (example_penv (always (Response 400))) example_world ''c1'')) ''c1''
   \<and> calls (snd (send_change_to_ai (example_penv (always (Response 400))) example_world ''c1''))
       = [(''c1'', Post example_payload)]
   \<and> fst (send_change_to_ai (example_penv (always (Response 200))) example_world ''c1'')
   \<and> delivery_sent
         (snd (send_change_to_ai (example_penv (always (Response 200))) example_world ''c1'')) ''c1''
   \<and> calls (snd (send_change_to_ai (example_penv (always (Response 200))) example_world ''c1''))
       = [(''c1'', Post example_payload)]"
proof -
  have nt: "net (example_penv nt) k = nt k" for nt k
    by (simp add: example_penv_def)
  have no_calls: "calls example_world = []"
    by (simp add: example_world_def)
  note inst = delivery_three_attempts [OF example_found example_pending surjective_pairing
      example_payload_eq [symmetric] refl refl refl]
  from inst [of "always (Response 500)"] inst [of "always (Response 400)"]
    inst [of "always (Response 200)"]
  show ?thesis
    by (simp add: nt always_def no_calls example_found example_pending)
qed

text \<open>
  Claim C1 as stated fails for the 4xx and 2xx classes: a backend that always answers 404
  gets three POSTs for the change (the claim says exactly one), and a backend that always
  answers 201 leaves the change Pending (the claim says Sent).
\<close>

theorem delivery_counterexample:
  "count_posts (calls_for ''c1''
       (calls (snd (send_change_to_ai (example_penv (always (Response 404))) example_world ''c1'')))) = 3
   \<and> \<not> delivery_sent
        (snd (send_change_to_ai (example_penv (always (Response 201))) example_world ''c1'')) ''c1''"
  by code_simp

section \<open>The delivery state only moves from Pending to Sent\<close>

lemma send_sent_noop:
  "delivery_sent wd cid \<Longrightarrow> send_change_to_ai pe wd cid = (True, wd)"
  by (auto simp: delivery_sent_def send_change_to_ai_def split: option.splits)

lemma calls_for_other:
  "cid' \<noteq> cid \<Longrightarrow> calls_for cid (cs @ map (Pair cid') effs) = calls_for cid cs"
  by (simp add: calls_for_def filter_empty_conv)

lemma delivery_sent_mark_other:
  "cid' \<noteq> cid \<Longrightarrow>
   delivery_sent (wd\<lparr>file_changes := mark_sent (is_change wd cid') (file_changes wd)\<rparr>) cid
     = delivery_sent wd cid"
  by (simp add: delivery_sent_def find_change_def find_is_change_mark_sent_other)

lemma send_keeps_sent:
  assumes "delivery_sent wd cid"
  shows "keeps_sent cid wd (snd (send_change_to_ai pe wd cid'))"
proof (cases "cid' = cid")
  case True
  with assms show ?thesis by (simp add: send_sent_noop keeps_sent_def)
next
  case False
  show ?thesis
  proof (cases "find_change wd cid'")
    case None
    with assms show ?thesis by (simp add: send_change_to_ai_def keeps_sent_def)
  next
    case (Some change)
    show ?thesis
    proof (cases "sent_to_ai change")
      case True
      with Some assms show ?thesis by (simp add: send_change_to_ai_def keeps_sent_def)
    next
      case pending: False
      obtain success effs where r:
        "send_to_ai_with_retries (net pe) (prepare_ai_payload pe change) (posts wd) = (success, effs)"
        by (cases "send_to_ai_with_retries (net pe) (prepare_ai_payload pe change) (posts wd)")
      have "snd (send_change_to_ai pe wd cid') =
          (if success
           then wd\<lparr>posts := posts wd + count_posts effs,
                   calls := calls wd @ map (Pair cid') effs,
                   file_changes := mark_sent (is_change wd cid') (file_changes wd)\<rparr>
           else wd\<lparr>posts := posts wd + count_posts effs,
                   calls := calls wd @ map (Pair cid') effs\<rparr>)"
        using Some pending r by (simp add: send_change_to_ai_def Let_def)
      moreover have "delivery_sent
          (wd\<lparr>posts := n, calls := cs,
              file_changes := mark_sent (is_change wd cid') (file_changes wd)\<rparr>) cid" for n cs
        using assms False delivery_sent_mark_other [of cid' cid wd]
        by (simp add: delivery_sent_def find_change_def find_is_change_mark_sent_other)
      ultimately show ?thesis
        using assms False by (simp add: keeps_sent_def calls_for_other)
    qed
  qed
qed

lemma send_each_keeps_sent:
  "delivery_sent wd cid \<Longrightarrow> keeps_sent cid wd (snd (send_each pe changes results wd))"
proof (induction changes arbitrary: results wd)
  case Nil
  then show ?case by (simp add: keeps_sent_def)
next
  case (Cons change changes)
  let ?wd1 = "snd (send_change_to_ai pe wd (fc_id change))"
  have k1: "keeps_sent cid wd ?wd1"
    using Cons.prems by (rule send_keeps_sent)
  then have s1: "delivery_sent ?wd1 cid"
    by (simp add: keeps_sent_def)
  have "keeps_sent cid ?wd1 (snd (send_each pe changes (results @ [(fc_id change, fst (send_change_to_ai pe wd (fc_id change)))]) ?wd1))"
    using s1 by (rule Cons.IH)
  with k1 Cons.prems show ?case
    by (simp add: split_beta keeps_sent_def)
qed


lemma bump_repository_ids [simp]:
  "map rp_id (bump_repository rid now rs) = map rp_id rs"
  by (induction rs) auto

lemma save_change_to_db_cases:
  assumes "save_change_to_db pe wd cd = (r, wd1)"
  shows "calls wd1 = calls wd \<and> posts wd1 = posts wd
         \<and> map rp_id (repositories wd1) = map rp_id (repositories wd)
         \<and> (case r of
               None \<Rightarrow> file_changes wd1 = file_changes wd
             | Some new_id \<Rightarrow>
                 new_id \<notin> set (map fc_id (file_changes wd))
                 \<and> (\<exists>row. fc_id row = new_id \<and> \<not> sent_to_ai row
                           \<and> file_changes wd1 = file_changes wd @ [row]))"
  using assms
  unfolding save_change_to_db_def get_or_create_user_def
  by (auto simp: Let_def split: option.splits prod.splits if_splits)

lemma find_append_Some: "find P xs = Some x \<Longrightarrow> find P (xs @ ys) = Some x"
  by (induction xs) (auto split: if_splits)

lemma delivery_sent_extend:
  assumes "delivery_sent wd cid"
      and "file_changes wd1 = file_changes wd @ rows"
      and "map rp_id (repositories wd1) = map rp_id (repositories wd)"
  shows "delivery_sent wd1 cid"
proof -
  have same: "is_change wd1 cid = is_change wd cid"
    using assms(3) by (simp add: is_change_def fun_eq_iff)
  from assms(1) obtain c where c: "find (is_change wd cid) (file_changes wd) = Some c" "sent_to_ai c"
    by (auto simp: delivery_sent_def find_change_def split: option.splits)
  then have "find (is_change wd1 cid) (file_changes wd1) = Some c"
    using assms(2) same by (simp add: find_append_Some)
  with c(2) show ?thesis
    by (simp add: delivery_sent_def find_change_def)
qed

lemma delivery_sent_id:
  "delivery_sent wd cid \<Longrightarrow> cid \<in> set (map fc_id (file_changes wd))"
  by (auto simp: delivery_sent_def find_change_def is_change_def find_Some_iff
           split: option.splits)

lemma handle_file_change_keeps_sent:
  assumes "delivery_sent wd cid"
  shows "keeps_sent cid wd (handle_file_change pe file_path change_type cd wd)"
proof (cases "validate_change_data cd")
  case False
  with assms show ?thesis
    by (simp add: handle_file_change_def process_file_change_def keeps_sent_def)
next
  case True
  obtain r wd1 where save: "save_change_to_db pe wd cd = (r, wd1)"
    by (cases "save_change_to_db pe wd cd")
  note facts = save_change_to_db_cases [OF save]
  show ?thesis
  proof (cases r)
    case None
    with facts have "file_changes wd1 = file_changes wd @ []" by simp
    with assms facts have "delivery_sent wd1 cid"
      by (intro delivery_sent_extend [of wd cid wd1 "[]"]) simp_all
    with True save None facts show ?thesis
      by (simp add: handle_file_change_def process_file_change_def keeps_sent_def)
  next
    case (Some new_id)
    with facts obtain row where row: "new_id \<notin> set (map fc_id (file_changes wd))"
        "file_changes wd1 = file_changes wd @ [row]"
      by auto
    with assms facts have s1: "delivery_sent wd1 cid"
      by (intro delivery_sent_extend [of wd cid wd1 "[row]"]) simp_all
    have ne: "new_id \<noteq> cid"
      using row(1) delivery_sent_id [OF assms] by auto
    have k: "keeps_sent cid wd1 (snd (send_change_to_ai pe wd1 new_id))"
      using s1 by (rule send_keeps_sent)
    have "handle_file_change pe file_path change_type cd wd =
        (snd (send_change_to_ai pe wd1 new_id))
          \<lparr>calls := calls (snd (send_change_to_ai pe wd1 new_id)) @ [(new_id, CreateBroadcastTask)]\<rparr>"
      using True save Some
      by (simp add: handle_file_change_def process_file_change_def queue_for_ai_processing_def)
    with k facts ne show ?thesis
      by (simp add: keeps_sent_def calls_for_def)
  qed
qed

lemma unsent_changes_pending: "c \<in> set (unsent_changes wd limit) \<Longrightarrow> \<not> sent_to_ai c"
  by (auto simp: unsent_changes_def dest!: in_set_takeD)

lemma failed_changes_pending: "c \<in> set (failed_changes pe wd hours_back limit) \<Longrightarrow> \<not> sent_to_ai c"
  by (auto simp: failed_changes_def Let_def dest!: in_set_takeD)

text \<open>
  Claim C3. When the change with id \<open>cid\<close> is Sent: delivering it again returns true and
  changes nothing (no POST, no sleep, the same database); delivering any change, a pass of
  \<open>process_unsent_changes\<close>, a pass of \<open>retry_failed_changes\<close> and the processing of a new
  file change all leave it Sent and add no call for it; and the rows the two passes select
  are all Pending.
\<close>

theorem sent_is_final:
  assumes "delivery_sent wd cid"
  shows "send_change_to_ai pe wd cid = (True, wd)
     \<and> keeps_sent cid wd (snd (send_change_to_ai pe wd cid'))
     \<and> keeps_sent cid wd (queue_for_ai_processing pe wd cid')
     \<and> keeps_sent cid wd (snd (process_unsent_changes pe wd limit))
     \<and> keeps_sent cid wd (snd (retry_failed_changes pe wd hours_back limit))
     \<and> keeps_sent cid wd (handle_file_change pe file_path change_type cd wd)
     \<and> (\<forall>c \<in> set (unsent_changes wd limit). \<not> sent_to_ai c)
     \<and> (\<forall>c \<in> set (failed_changes pe wd hours_back limit). \<not> sent_to_ai c)"
proof -
  have same: "keeps_sent cid wd wd"
    using assms by (simp add: keeps_sent_def)
  have "keeps_sent cid wd (snd (process_unsent_changes pe wd limit))"
    using same send_each_keeps_sent [OF assms] by (simp add: process_unsent_changes_def)
  moreover have "keeps_sent cid wd (snd (retry_failed_changes pe wd hours_back limit))"
    using same send_each_keeps_sent [OF assms] by (simp add: retry_failed_changes_def)
  ultimately show ?thesis
    using send_sent_noop [OF assms] send_keeps_sent [OF assms]
      handle_file_change_keeps_sent [OF assms]
      unsent_changes_pending failed_changes_pending
    by (simp add: queue_for_ai_processing_def)
qed


text \<open>
  The theorem on the database in which \<open>c1\<close> is Sent and \<open>c2\<close> is Pending, with a
  backend that rejects everything with status 500: \<open>c2\<close> is selected by the pass (and is
  Pending), \<open>c1\<close> stays Sent, and the only call ever made for \<open>c1\<close> is still its one POST.
\<close>

theorem sent_is_final_witness:
  "delivery_sent example_sent_world ''c1''
   \<and> send_change_to_ai (example_penv (always (Response 500))) example_sent_world ''c1''
       = (True, example_sent_world)
   \<and> example_change\<lparr>fc_id := ''c2'', fc_timestamp := 20\<rparr> \<in> set (unsent_changes example_sent_world 10)
   \<and> \<not> sent_to_ai (example_change\<lparr>fc_id := ''c2'', fc_timestamp := 20\<rparr>)
   \<and> delivery_sent
        (snd (process_unsent_changes (example_penv (always (Response 500))) example_sent_world 10)) ''c1''
   \<and> calls_for ''c1''
        (calls (snd (process_unsent_changes (example_penv (always (Response 500))) example_sent_world 10)))
       = [Post example_payload]"
proof -
  have sent: "delivery_sent example_sent_world ''c1''"
    by (simp add: delivery_sent_def find_change_def example_sent_world_def example_world_def
        is_change_def example_change_def)
  have selected: "example_change\<lparr>fc_id := ''c2'', fc_timestamp := 20\<rparr>
      \<in> set (unsent_changes example_sent_world 10)"
    by (simp add: unsent_changes_def example_sent_world_def example_world_def example_change_def)
  have before: "calls_for ''c1'' (calls example_sent_world) = [Post example_payload]"
    by (simp add: calls_for_def example_sent_world_def example_world_def)
  from sent_is_final [OF sent, of "example_penv (always (Response 500))" _ 10] sent selected before
  show ?thesis
    by (simp add: keeps_sent_def)
qed

section \<open>Created and modified files\<close>

lemma get_proper_diff_read_error:
  assumes "change_type \<noteq> ''deleted''"
      and "path_exists e (os_path_join (repo_path w) relative_path)"
      and "read_text e (os_path_join (repo_path w) relative_path) = ReadError msg"
  shows "get_proper_diff ud e w relative_path change_type
           = (''Error reading current file: '' @ msg, w)"
  using assms by (simp add: get_proper_diff_def)

lemma get_proper_diff_read_ok:
  assumes "change_type \<noteq> ''deleted''"
      and "path_exists e (os_path_join (repo_path w) relative_path)"
      and "read_text e (os_path_join (repo_path w) relative_path) = ReadOk current"
      and "previous =
             (let p = (case file_snapshots w relative_path of Some s \<Rightarrow> s | None \<Rightarrow> '''')
              in if p = '''' \<and> change_type \<noteq> ''created''
                 then (case git_show e (repo_path w) relative_path of Some s \<Rightarrow> s | None \<Rightarrow> '''')
                 else p)"
  shows "get_proper_diff ud e w relative_path change_type
           = (if previous = current then ''No actual changes detected''
              else create_diff ud relative_path previous current,
              w\<lparr>file_snapshots := (file_snapshots w)(relative_path \<mapsto> current)\<rparr>)"
  using assms by (simp add: get_proper_diff_def Let_def)

lemma get_proper_diff_absent:
  assumes "\<not> path_exists e (os_path_join (repo_path w) relative_path)"
  shows "get_proper_diff ud e w relative_path change_type =
     (case file_snapshots w relative_path of
        None \<Rightarrow> (''File deleted (no previous snapshot available)'', w)
      | Some previous \<Rightarrow>
          (create_diff ud relative_path previous '''',
           w\<lparr>file_snapshots := (file_snapshots w)(relative_path := None)\<rparr>))"
  using assms by (simp add: get_proper_diff_def split: option.splits)

text \<open>
  Claim C4, as the code has it. A created or modified event for a path that exists on disk:
  when the file is read, the previous content is the snapshot entry if there is one and it
  is not empty (or the kind is created), the content at \<open>HEAD\<close> (empty if git has none) if
  there is no entry and the kind is not created, and empty if there is no entry and the
  kind is created; the result is the diff of previous and current content (the sentinel
  when they are equal); and whatever the entry was, the snapshot entry is overwritten with
  the current content. When the read fails, the result is the error text and the watcher
  is unchanged. For a path that does not exist on disk the event is handled as a deletion:
  the sentinel when there is no entry, else the diff of the entry against empty content,
  and the entry is removed.
\<close>

theorem created_or_modified_diff:
  assumes kind: "change_type = ''created'' \<or> change_type = ''modified''"
      and run: "get_proper_diff ud e w relative_path change_type = (diff, w')"
      and r: "r = read_text e (os_path_join (repo_path w) relative_path)"
      and head: "head = (case git_show e (repo_path w) relative_path of Some s \<Rightarrow> s | None \<Rightarrow> '''')"
  shows
    "(path_exists e (os_path_join (repo_path w) relative_path) \<longrightarrow>
        (\<forall>current previous.
            r = ReadOk current
            \<and> (file_snapshots w relative_path = Some previous
                   \<and> (previous \<noteq> '''' \<or> change_type = ''created'')
               \<or> file_snapshots w relative_path = None
                   \<and> previous = (if change_type = ''created'' then '''' else head))
            \<longrightarrow> diff = (if previous = current then ''No actual changes detected''
                        else create_diff ud relative_path previous current)
                \<and> w' = w\<lparr>file_snapshots := (file_snapshots w)(relative_path \<mapsto> current)\<rparr>)
        \<and> (\<forall>current. r = ReadOk current \<longrightarrow>
              w' = w\<lparr>file_snapshots := (file_snapshots w)(relative_path \<mapsto> current)\<rparr>)
        \<and> (\<forall>msg. r = ReadError msg \<longrightarrow>
              diff = ''Error reading current file: '' @ msg \<and> w' = w))
     \<and> (\<not> path_exists e (os_path_join (repo_path w) relative_path) \<longrightarrow>
        (file_snapshots w relative_path = None \<longrightarrow>
            diff = ''File deleted (no previous snapshot available)'' \<and> w' = w)
        \<and> (\<forall>previous. file_snapshots w relative_path = Some previous \<longrightarrow>
              diff = create_diff ud relative_path previous ''''
              \<and> w' = w\<lparr>file_snapshots := (file_snapshots w)(relative_path := None)\<rparr>))"
proof -
  have not_deleted: "change_type \<noteq> ''deleted''"
    using kind by auto
  have err: "diff = ''Error reading current file: '' @ msg \<and> w' = w"
    if there: "path_exists e (os_path_join (repo_path w) relative_path)"
      and "r = ReadError msg" for msg
    using get_proper_diff_read_error [OF not_deleted there, of msg ud] that r run by simp
  have stored: "w' = w\<lparr>file_snapshots := (file_snapshots w)(relative_path \<mapsto> current)\<rparr>"
    if there: "path_exists e (os_path_join (repo_path w) relative_path)"
      and rd: "r = ReadOk current" for current
    using get_proper_diff_read_ok [OF not_deleted there _ refl, of current ud] rd r run by simp
  have ok: "diff = (if previous = current then ''No actual changes detected''
                    else create_diff ud relative_path previous current)
            \<and> w' = w\<lparr>file_snapshots := (file_snapshots w)(relative_path \<mapsto> current)\<rparr>"
    if there: "path_exists e (os_path_join (repo_path w) relative_path)"
      and rd: "r = ReadOk current"
      and prev: "file_snapshots w relative_path = Some previous
               \<and> (previous \<noteq> '''' \<or> change_type = ''created'')
           \<or> file_snapshots w relative_path = None
               \<and> previous = (if change_type = ''created'' then '''' else head)"
    for current previous
  proof -
    have "previous =
             (let p = (case file_snapshots w relative_path of Some s \<Rightarrow> s | None \<Rightarrow> '''')
              in if p = '''' \<and> change_type \<noteq> ''created''
                 then (case git_show e (repo_path w) relative_path of Some s \<Rightarrow> s | None \<Rightarrow> '''')
                 else p)"
      using prev head by (auto simp: Let_def)
    from get_proper_diff_read_ok [OF not_deleted there _ this, of current ud] rd r run
    show ?thesis by simp
  qed
  have absent_none: "diff = ''File deleted (no previous snapshot available)'' \<and> w' = w"
    if "\<not> path_exists e (os_path_join (repo_path w) relative_path)"
      and "file_snapshots w relative_path = None"
    using get_proper_diff_absent [OF that(1), of ud change_type] that(2) run by simp
  have absent_some: "diff = create_diff ud relative_path previous ''''
              \<and> w' = w\<lparr>file_snapshots := (file_snapshots w)(relative_path := None)\<rparr>"
    if "\<not> path_exists e (os_path_join (repo_path w) relative_path)"
      and "file_snapshots w relative_path = Some previous" for previous
    using get_proper_diff_absent [OF that(1), of ud change_type] that(2) run by simp
  show ?thesis
    using err stored ok absent_none absent_some by blast
qed

lemma example_join: "os_path_join ''/repo'' ''a.py'' = ''/repo/a.py''"
  by code_simp

lemma example_join_gone: "os_path_join ''/repo'' ''gone.py'' = ''/repo/gone.py''"
  by code_simp

lemma example_repo_path: "repo_path (example_watcher snaps) = ''/repo''"
  by (simp add: example_watcher_def)

lemma example_read_text: "read_text (example_env r) p = r"
  by (simp add: example_env_def)

lemma example_a_py_exists: "path_exists (example_env r) ''/repo/a.py''"
  by (simp add: example_env_def)

lemma example_gone_py_absent: "\<not> path_exists (example_env r) ''/repo/gone.py''"
  by (simp add: example_env_def)

text \<open>
  The theorem on the small repository: \<open>a.py\<close> has the snapshot \<open>v1\<close> and now reads
  \<open>v2\<close>; a modified event yields the diff of \<open>v1\<close> and \<open>v2\<close> and stores \<open>v2\<close>. The
  file \<open>gone.py\<close> has the snapshot \<open>old\<close> and is no longer on disk; a modified event
  yields the diff of \<open>old\<close> against empty content and removes the entry.
\<close>

theorem created_or_modified_diff_witness:
  "path_exists (example_env (ReadOk ''v2''))
      (os_path_join (repo_path (example_watcher [(''a.py'', ''v1'')])) ''a.py'')
   \<and> get_proper_diff unified_diff_no_common (example_env (ReadOk ''v2''))
        (example_watcher [(''a.py'', ''v1'')]) ''a.py'' ''modified''
       = (create_diff unified_diff_no_common ''a.py'' ''v1'' ''v2'',
          (example_watcher [(''a.py'', ''v1'')])
            \<lparr>file_snapshots :=
               (file_snapshots (example_watcher [(''a.py'', ''v1'')]))(''a.py'' \<mapsto> ''v2'')\<rparr>)
   \<and> \<not> path_exists (example_env (ReadOk ''v2''))
      (os_path_join (repo_path (example_watcher [(''gone.py'', ''old'')])) ''gone.py'')
   \<and> get_proper_diff unified_diff_no_common (example_env (ReadOk ''v2''))
        (example_watcher [(''gone.py'', ''old'')]) ''gone.py'' ''modified''
       = (create_diff unified_diff_no_common ''gone.py'' ''old'' '''',
          (example_watcher [(''gone.py'', ''old'')])
            \<lparr>file_snapshots :=
               (file_snapshots (example_watcher [(''gone.py'', ''old'')]))(''gone.py'' := None)\<rparr>)"
proof -
  let ?e = "example_env (ReadOk ''v2'')" and ?w = "example_watcher [(''a.py'', ''v1'')]"
  let ?g = "example_watcher [(''gone.py'', ''old'')]"
  have there: "path_exists ?e (os_path_join (repo_path ?w) ''a.py'')"
    unfolding example_repo_path example_join by (rule example_a_py_exists)
  have r: "read_text ?e (os_path_join (repo_path ?w) ''a.py'') = ReadOk ''v2''"
    by (rule example_read_text)
  have snap: "file_snapshots ?w ''a.py'' = Some ''v1''"
    by (simp add: example_watcher_def)
  have kind: "''modified'' = ''created'' \<or> ''modified'' = ''modified''"
    by simp
  have absent: "\<not> path_exists ?e (os_path_join (repo_path ?g) ''gone.py'')"
    unfolding example_repo_path example_join_gone by (rule example_gone_py_absent)
  have gsnap: "file_snapshots ?g ''gone.py'' = Some ''old''"
    by (simp add: example_watcher_def)
  have first: "get_proper_diff unified_diff_no_common ?e ?w ''a.py'' ''modified''
       = (create_diff unified_diff_no_common ''a.py'' ''v1'' ''v2'',
          ?w\<lparr>file_snapshots := (file_snapshots ?w)(''a.py'' \<mapsto> ''v2'')\<rparr>)"
    using created_or_modified_diff [where ud = unified_diff_no_common and e = ?e and w = ?w
        and relative_path = "''a.py''", OF kind surjective_pairing refl refl] r snap there
    by (simp add: prod_eq_iff)
  have second: "get_proper_diff unified_diff_no_common ?e ?g ''gone.py'' ''modified''
       = (create_diff unified_diff_no_common ''gone.py'' ''old'' '''',
          ?g\<lparr>file_snapshots := (file_snapshots ?g)(''gone.py'' := None)\<rparr>)"
    using created_or_modified_diff [where ud = unified_diff_no_common and e = ?e and w = ?g
        and relative_path = "''gone.py''", OF kind surjective_pairing refl refl] gsnap absent
    by (simp add: prod_eq_iff)
  from there first absent second show ?thesis by blast
qed

text \<open>
  Claim C4 as stated fails in three places. When the read fails, the result is the error
  text and the snapshot of \<open>a.py\<close> stays \<open>old\<close>: it is not overwritten with an empty
  current content. When the snapshot entry of \<open>a.py\<close> is present but empty, a modified
  event diffs the content at \<open>HEAD\<close> (\<open>v1\<close>) against the current content, not the entry.
  And when \<open>gone.py\<close> is not on disk, a modified event diffs its entry against empty
  content and removes the entry instead of overwriting it.
\<close>

theorem created_or_modified_diff_counterexample:
  "get_proper_diff unified_diff_no_common (example_env (ReadError ''denied''))
        (example_watcher [(''a.py'', ''old'')]) ''a.py'' ''modified''
     = (''Error reading current file: denied'', example_watcher [(''a.py'', ''old'')])
   \<and> file_snapshots (example_watcher [(''a.py'', ''old'')]) ''a.py'' = Some ''old''
   \<and> file_snapshots (example_watcher [(''a.py'', '''')]) ''a.py'' = Some ''''
   \<and> fst (get_proper_diff unified_diff_no_common (example_env (ReadOk ''v2''))
        (example_watcher [(''a.py'', '''')]) ''a.py'' ''modified'')
       = create_diff unified_diff_no_common ''a.py'' ''v1'' ''v2''
   \<and> create_diff unified_diff_no_common ''a.py'' ''v1'' ''v2''
       \<noteq> create_diff unified_diff_no_common ''a.py'' '''' ''v2''
   \<and> \<not> path_exists (example_env (ReadOk ''v2'')) (os_path_join ''/repo'' ''gone.py'')
   \<and> file_snapshots (example_watcher [(''gone.py'', ''old'')]) ''gone.py'' = Some ''old''
   \<and> fst (get_proper_diff unified_diff_no_common (example_env (ReadOk ''v2''))
        (example_watcher [(''gone.py'', ''old'')]) ''gone.py'' ''modified'')
       = create_diff unified_diff_no_common ''gone.py'' ''old'' ''''
   \<and> file_snapshots (snd (get_proper_diff unified_diff_no_common (example_env (ReadOk ''v2''))
        (example_watcher [(''gone.py'', ''old'')]) ''gone.py'' ''modified'')) ''gone.py''
       = None"
proof -
  have a: "get_proper_diff unified_diff_no_common (example_env (ReadError ''denied''))
        (example_watcher [(''a.py'', ''old'')]) ''a.py'' ''modified''
     = (''Error reading current file: denied'', example_watcher [(''a.py'', ''old'')])"
    using get_proper_diff_read_error [of "''modified''" "example_env (ReadError ''denied'')"
        "example_watcher [(''a.py'', ''old'')]" "''a.py''" "''denied''" unified_diff_no_common]
    by (simp add: example_repo_path example_join example_a_py_exists example_read_text)
  have b: "file_snapshots (example_watcher [(''a.py'', ''old'')]) ''a.py'' = Some ''old''"
      "file_snapshots (example_watcher [(''a.py'', '''')]) ''a.py'' = Some ''''"
      "file_snapshots (example_watcher [(''gone.py'', ''old'')]) ''gone.py'' = Some ''old''"
    by (simp_all add: example_watcher_def)
  have ne: "create_diff unified_diff_no_common ''a.py'' ''v1'' ''v2''
       \<noteq> create_diff unified_diff_no_common ''a.py'' '''' ''v2''"
    by code_simp
  have head: "git_show (example_env r) ''/repo'' ''a.py'' = Some ''v1''" for r
    by (simp add: example_env_def)
  have c: "fst (get_proper_diff unified_diff_no_common (example_env (ReadOk ''v2''))
        (example_watcher [(''a.py'', '''')]) ''a.py'' ''modified'')
       = create_diff unified_diff_no_common ''a.py'' ''v1'' ''v2''"
    using get_proper_diff_read_ok [of "''modified''" "example_env (ReadOk ''v2'')"
        "example_watcher [(''a.py'', '''')]" "''a.py''" "''v2''" "''v1''" unified_diff_no_common]
    by (simp add: example_repo_path example_join example_a_py_exists example_read_text b head)
  have absent: "\<not> path_exists (example_env (ReadOk ''v2'')) (os_path_join ''/repo'' ''gone.py'')"
    unfolding example_join_gone by (rule example_gone_py_absent)
  have d: "get_proper_diff unified_diff_no_common (example_env (ReadOk ''v2''))
        (example_watcher [(''gone.py'', ''old'')]) ''gone.py'' ''modified''
       = (create_diff unified_diff_no_common ''gone.py'' ''old'' '''',
          (example_watcher [(''gone.py'', ''old'')])
            \<lparr>file_snapshots :=
               (file_snapshots (example_watcher [(''gone.py'', ''old'')]))(''gone.py'' := None)\<rparr>)"
    using get_proper_diff_absent [of "example_env (ReadOk ''v2'')"
        "example_watcher [(''gone.py'', ''old'')]" "''gone.py''" unified_diff_no_common "''modified''"]
      absent
    by (simp add: example_repo_path b)
  from a b c ne absent show ?thesis
    unfolding d by simp
qed

section \<open>Deleted files and the line counts\<close>

lemma get_proper_diff_deleted:
  "get_proper_diff ud e w relative_path ''deleted'' =
     (case file_snapshots w relative_path of
        None \<Rightarrow> (''File deleted (no previous snapshot available)'', w)
      | Some previous \<Rightarrow>
          (create_diff ud relative_path previous '''',
           w\<lparr>file_snapshots := (file_snapshots w)(relative_path := None)\<rparr>))"
  by (simp add: get_proper_diff_def split: option.splits)

lemma py_split_nonempty [simp]: "py_split c s \<noteq> []"
  by (induction s) (auto split: list.splits)

lemma py_split_no_sep: "l \<in> set (py_split c s) \<Longrightarrow> c \<notin> set l"
  by (induction s arbitrary: l) (auto split: list.splits if_splits)

lemma py_split_line: "c \<notin> set x \<Longrightarrow> py_split c x = [x]"
  by (induction x) auto

lemma py_split_append: "c \<notin> set x \<Longrightarrow> py_split c (x @ c # rest) = x # py_split c rest"
  by (induction x) (auto split: list.splits)

lemma py_split_join:
  "ls \<noteq> [] \<Longrightarrow> \<forall>l \<in> set ls. c \<notin> set l \<Longrightarrow> py_split c (py_join [c] ls) = ls"
  by (induction "[c]" ls rule: py_join.induct) (simp_all add: py_split_line py_split_append)

lemma plus_minus_exclusive: "startswith l ''+'' \<Longrightarrow> \<not> startswith l ''-''"
  by (cases l) (auto simp: startswith_def)

lemma count_diff_lines_filter:
  "count_diff_lines ls st =
     st\<lparr>added := added st + length (filter is_added ls),
        removed := removed st + length (filter is_removed ls)\<rparr>"
  by (induction ls arbitrary: st) (auto simp: is_added_def is_removed_def dest: plus_minus_exclusive)

lemma digit_char_not_newline: "d < 10 \<Longrightarrow> digit_char d \<noteq> CHR 0x0A"
proof
  assume d: "d < 10" and "digit_char d = CHR 0x0A"
  then have "of_char (char_of (48 + d)) = (of_char (CHR 0x0A) :: nat)"
    by (simp add: digit_char_def)
  with d show False
    by simp
qed

lemma str_of_nat_no_newline: "CHR 0x0A \<notin> set (str_of_nat n)"
proof (induction n rule: str_of_nat.induct)
  case (1 n)
  show ?case
  proof (cases "n < 10")
    case True
    then show ?thesis
      using digit_char_not_newline [of n] by (subst str_of_nat.simps) auto
  next
    case False
    have "n mod 10 < 10" by simp
    with False 1 show ?thesis
      using digit_char_not_newline [of "n mod 10"] by (subst str_of_nat.simps) auto
  qed
qed

lemma format_range_unified_no_newline: "CHR 0x0A \<notin> set (format_range_unified a b)"
  by (simp add: format_range_unified_def Let_def str_of_nat_no_newline)

lemma is_removed_minus [simp]: "is_removed (CHR ''-'' # l) = (\<not> startswith l ''--'')"
  by (simp add: is_removed_def startswith_def)

lemma is_added_minus [simp]: "\<not> is_added (CHR ''-'' # l)"
  by (simp add: is_added_def startswith_def)

lemma filter_removed_minus:
  "filter is_removed (map (\<lambda>line. CHR ''-'' # line) ls)
     = map (\<lambda>line. CHR ''-'' # line) (filter (\<lambda>l. \<not> startswith l ''--'') ls)"
  by (induction ls) auto

lemma filter_added_minus: "filter is_added (map (\<lambda>line. CHR ''-'' # line) ls) = []"
  by (induction ls) auto

text \<open>
  What \<open>_parse_diff_stats\<close> counts on the diff of a deleted file whose snapshot is not
  empty: no added line, and as removed lines the lines of the snapshot that do not start
  with \<open>--\<close>.
\<close>

lemma deleted_lines_counted:
  assumes prev: "previous \<noteq> ''''" and rel: "CHR 0x0A \<notin> set relative_path"
  shows "parse_diff_stats (create_diff unified_diff_no_common relative_path previous '''')
           = \<lparr>added = 0,
              removed = length (filter (\<lambda>l. \<not> startswith l ''--'') (py_split (CHR 0x0A) previous))\<rparr>"
proof -
  let ?old = "py_split (CHR 0x0A) previous"
  let ?hunk = "''@@ -'' @ format_range_unified 0 (length ?old) @ '' +''
               @ format_range_unified 0 0 @ '' @@''"
  let ?lines = "[''diff --git a/'' @ relative_path @ '' b/'' @ relative_path,
                 ''deleted file mode 100644'',
                 ''--- '' @ ''a/'' @ relative_path, ''+++ '' @ ''b/'' @ relative_path, ?hunk]
                @ map (\<lambda>line. CHR ''-'' # line) ?old"
  have cd: "create_diff unified_diff_no_common relative_path previous '''' = py_join [CHR 0x0A] ?lines"
    using prev by (simp add: create_diff_def unified_diff_no_common_def Let_def)
  have clean: "\<forall>l \<in> set ?lines. CHR 0x0A \<notin> set l"
    using rel py_split_no_sep [of _ "CHR 0x0A" previous]
    by (auto simp: format_range_unified_no_newline)
  have split: "py_split (CHR 0x0A) (py_join [CHR 0x0A] ?lines) = ?lines"
    using clean by (intro py_split_join) simp_all
  have added: "filter is_added ?lines = []"
    by (simp add: filter_added_minus) (simp add: is_added_def startswith_def)
  have removed: "filter is_removed ?lines
      = map (\<lambda>line. CHR ''-'' # line) (filter (\<lambda>l. \<not> startswith l ''--'') ?old)"
    by (simp add: filter_removed_minus) (simp add: is_removed_def startswith_def)
  show ?thesis
    unfolding parse_diff_stats_def cd split count_diff_lines_filter added removed
    by simp
qed

text \<open>
  Claim C5 at a failing input. The snapshot of \<open>q.sql\<close> is the one line \<open>-- drop\<close>. The
  diff of the deleted event has it as the removal line \<open>--- drop\<close>, which
  \<open>_parse_diff_stats\<close> skips as if it were the file-name line, so \<open>lines_removed\<close> is 0
  where the claim says 1.
\<close>

theorem deleted_double_dash_not_counted:
  "py_split (CHR 0x0A) ''-- drop'' = [''-- drop'']
   \<and> cd_git_diff (fst (extract_git_info unified_diff_no_common (example_env (ReadOk ''''))
         (example_watcher [(''q.sql'', ''-- drop'')]) ''/repo/q.sql'' ''deleted'' ''q.sql''))
       = Some (create_diff unified_diff_no_common ''q.sql'' ''-- drop'' '''')
   \<and> unified_diff_no_common [''-- drop''] [] ''a/q.sql'' ''b/q.sql''
       = [''--- a/q.sql'', ''+++ b/q.sql'', ''@@ -1 +0,0 @@'', ''--- drop'']
   \<and> cd_lines_removed (fst (extract_git_info unified_diff_no_common (example_env (ReadOk ''''))
         (example_watcher [(''q.sql'', ''-- drop'')]) ''/repo/q.sql'' ''deleted'' ''q.sql''))
       = Some 0"
  by code_simp

text \<open>
  Claim C8 at a failing input. The file \<open>i.c\<close> is created with the one line \<open>++i\<close>. The
  body of the diff has one insertion line, \<open>+++i\<close>; \<open>_parse_diff_stats\<close> excludes it by
  its prefix \<open>+++\<close>, so \<open>lines_added\<close> is 0 where the diff has one inserted line.
\<close>

theorem created_plus_plus_not_counted:
  "unified_diff_no_common [] [''++i''] ''a/i.c'' ''b/i.c''
     = [''--- a/i.c'', ''+++ b/i.c'', ''@@ -0,0 +1 @@'', ''+++i'']
   \<and> parse_diff_stats (create_diff unified_diff_no_common ''i.c'' '''' ''++i'')
     = \<lparr>added = 0, removed = 0\<rparr>
   \<and> cd_lines_added (fst (extract_git_info unified_diff_no_common (example_env (ReadOk ''++i''))
         (example_watcher []) ''/repo/i.c'' ''created'' ''i.c''))
       = Some 0"
  by code_simp

section \<open>Stopping a watcher\<close>




section \<open>The event callback delivers inline\<close>

text \<open>
  Claim C2 at a failing input. A modified event for \<open>a.py\<close> reaches the watcher while the
  AI backend answers 500 to everything. \<open>handle_event\<close> calls \<open>_on_file_change\<close>, which
  calls the registered callback \<open>handle_file_change\<close>, which persists the change and
  delivers it before returning: by the time the event callback returns, three POSTs have
  been made and the thread has slept 2 and 4 seconds between them.
\<close>

theorem callback_posts_inline:
  "calls (snd (handle_event unified_diff_no_common (example_env (ReadOk ''v2''))
        (run_callback (example_penv (always (Response 500))))
        (example_watcher [(''a.py'', ''v1'')]) example_world False ''/repo/a.py'' ''modified''))
     = [(''id-0'', Post example_payload), (''id-0'', Sleep 2), (''id-0'', Post example_payload),
        (''id-0'', Sleep 4), (''id-0'', Post example_payload), (''id-0'', CreateBroadcastTask)]"
  by code_simp

section \<open>The watcher manager\<close>

lemma map_fst_set_watcher [simp]: "map fst (set_watcher rid w kvs) = map fst kvs"
  by (induction kvs) auto


lemma manager_start_watching_keys [simp]:
  "map fst (watchers (snd (manager_start_watching e m rid))) = map fst (watchers m)"
  by (simp add: manager_start_watching_def split_beta split: option.splits)







lemma manager_X_eq:
  "manager_X = \<lparr>watchers = [(''X'', \<lparr>repo_path = ''/repo'', repo_id = ''X'', observer = None,
               event_handler = False, is_running = False, change_callbacks = [HandleFileChange],
               file_snapshots = Map.empty\<rparr>)], manager_callbacks = [HandleFileChange]\<rparr>"
  by (simp add: manager_X_def add_repository_def empty_manager_def new_repo_watcher_def
      validate_repository_def example_env_def add_change_callback_def Let_def)

lemma manager_X_keys: "map fst (watchers manager_X) = [''X'']"
  by (simp add: manager_X_eq)

lemma missing_path: "\<not> path_exists (example_env r) (abspath (example_env r) ''/missing'')"
  by (simp add: example_env_def)





text \<open>
  Claim C10. Adding a repository under an id that is already registered returns true and
  leaves the manager exactly as it was, whatever the new path is and whatever the
  environment says about it: no watcher is built, the path is not validated, and the
  watcher registered before stays under that id.
\<close>

theorem add_repository_existing:
  assumes "rid \<in> set (map fst (watchers m))"
  shows "add_repository e m rid rpath = (True, m)
         \<and> map_of (watchers (snd (add_repository e m rid rpath))) rid = map_of (watchers m) rid"
  using assms by (simp add: add_repository_def)

text \<open>
  The theorem on the manager that holds \<open>X\<close> at \<open>/repo\<close>: adding \<open>X\<close> again with a
  path that does not exist returns true and the manager is unchanged.
\<close>

theorem add_repository_existing_witness:
  "''X'' \<in> set (map fst (watchers manager_X))
   \<and> \<not> path_exists (example_env (ReadOk ''v1'')) (abspath (example_env (ReadOk ''v1'')) ''/missing'')
   \<and> add_repository (example_env (ReadOk ''v1'')) manager_X ''X'' ''/missing'' = (True, manager_X)
   \<and> map (\<lambda>kv. (fst kv, repo_path (snd kv))) (watchers manager_X) = [(''X'', ''/repo'')]"
proof -
  have x: "''X'' \<in> set (map fst (watchers manager_X))"
    by (simp add: manager_X_keys)
  from add_repository_existing [OF x, of "example_env (ReadOk ''v1'')" "''/missing''"]
    x missing_path
  show ?thesis by (simp add: manager_X_eq)
qed

end
